theory Spec2Isabelle
  imports Complex_Main "HOL-Library.Char_ord" "HOL-Library.List_Lexorder"
    "HOL-Library.Sublist" "HOL-Library.Multiset"
begin

section \<open>Python values and exceptions\<close>

text \<open>
  The dictionaries handled by the program (merge requests, analyses, reviews, filters,
  keyword arguments) come from JSON or from the caller and are typed \<^verbatim>\<open>Dict[str, Any]\<close>.
  Their values are modelled by the JSON fragment of Python's values; a dictionary is an
  association list read with \<open>map_of\<close>. Python floats are modelled by the reals
  (rounding is not modelled), clock readings of \<^verbatim>\<open>time.time()\<close> are reals.
\<close>

datatype pyval =
    PNone
  | PBool bool
  | PInt int
  | PStr string
  | PList "pyval list"
  | PDict "(string \<times> pyval) list"

text \<open>
  A value of type \<open>exn\<close> is an instance of \<^verbatim>\<open>Exception\<close>: \<open>exc_name\<close> is
  \<^verbatim>\<open>type(e).__name__\<close>, \<open>exc_classes\<close> lists the qualified names of the classes below
  \<^verbatim>\<open>Exception\<close> it is an instance of, \<open>exc_str\<close> is \<^verbatim>\<open>str(e)\<close>, and
  \<open>exc_status\<close> is the status code of the response an HTTP error carries.
\<close>

record exn =
  exc_name :: string
  exc_classes :: "string list"
  exc_str :: string
  exc_status :: "int option"

definition isinstance :: "exn \<Rightarrow> string \<Rightarrow> bool" where
  "isinstance e c = (c = ''Exception'' \<or> c \<in> set (exc_classes e))"


definition Exception :: "string \<Rightarrow> exn" where
  "Exception m = \<lparr>exc_name = ''Exception'', exc_classes = [], exc_str = m, exc_status = None\<rparr>"

text \<open>
  The interpreter's own exceptions: \<open>builtin_error n bases m\<close> is an instance of the builtin
  class \<open>n\<close>, whose base classes below \<^verbatim>\<open>Exception\<close> are \<open>bases\<close>, with message \<open>m\<close>.
\<close>

definition builtin_error :: "string \<Rightarrow> string list \<Rightarrow> string \<Rightarrow> exn" where
  "builtin_error n bases m =
     \<lparr>exc_name = n, exc_classes = n # bases, exc_str = m, exc_status = None\<rparr>"

abbreviation "TypeError \<equiv> builtin_error ''TypeError'' []"
abbreviation "KeyError \<equiv> builtin_error ''KeyError'' [''LookupError'']"
abbreviation "AttributeError \<equiv> builtin_error ''AttributeError'' []"
abbreviation "ValueError \<equiv> builtin_error ''ValueError'' []"
abbreviation "ZeroDivisionError \<equiv> builtin_error ''ZeroDivisionError'' [''ArithmeticError'']"
abbreviation "OverflowError \<equiv> builtin_error ''OverflowError'' [''ArithmeticError'']"

definition quoted :: "string \<Rightarrow> string" where
  "quoted s = CHR 0x27 # s @ [CHR 0x27]"

text \<open>The exception classes of \<^verbatim>\<open>requests.exceptions\<close> named by \<^verbatim>\<open>RetryConfig\<close>.\<close>

definition requests_ConnectionError :: "string \<Rightarrow> exn" where
  "requests_ConnectionError m =
     \<lparr>exc_name = ''ConnectionError'',
      exc_classes = [''requests.exceptions.ConnectionError'',
                     ''requests.exceptions.RequestException'', ''OSError''],
      exc_str = m, exc_status = None\<rparr>"

definition requests_Timeout :: "string \<Rightarrow> exn" where
  "requests_Timeout m =
     \<lparr>exc_name = ''Timeout'',
      exc_classes = [''requests.exceptions.Timeout'',
                     ''requests.exceptions.RequestException'', ''OSError''],
      exc_str = m, exc_status = None\<rparr>"


section \<open>error\_handler.py\<close>

subsection \<open>ErrorContext\<close>

record ErrorContext =
  operation :: string
  component :: string
  timestamp :: string
  attempt :: pyval
  max_attempts :: pyval
  error_type :: string
  error_message :: string
  recovery_action :: "string option"

text \<open>\<^verbatim>\<open>__post_init__\<close>: an empty timestamp is replaced by the current time \<open>now\<close>.\<close>

definition ErrorContext_post_init :: "string \<Rightarrow> ErrorContext \<Rightarrow> ErrorContext" where
  "ErrorContext_post_init now c = (if timestamp c = [] then c\<lparr>timestamp := now\<rparr> else c)"

subsection \<open>RetryConfig\<close>

record RetryConfig =
  max_attempts :: int
  base_delay :: real
  max_delay :: real
  exponential_base :: real
  jitter :: bool
  retry_on_exceptions :: "string list"
  retry_on_status_codes :: "int list"

definition RetryConfig_default :: RetryConfig where
  "RetryConfig_default =
     \<lparr>max_attempts = 3, base_delay = 1, max_delay = 60, exponential_base = 2, jitter = True,
      retry_on_exceptions = [''requests.exceptions.ConnectionError'',
                             ''requests.exceptions.Timeout'',
                             ''requests.exceptions.HTTPError''],
      retry_on_status_codes = [429, 500, 502, 503, 504]\<rparr>"

text \<open>
  \<^verbatim>\<open>x ** n\<close> for a float \<open>x\<close> and an int \<open>n\<close>: \<^verbatim>\<open>0.0 ** n\<close> with negative \<open>n\<close> raises
  \<^verbatim>\<open>ZeroDivisionError\<close>, and a result beyond the largest finite double raises
  \<^verbatim>\<open>OverflowError\<close>.
\<close>

definition float_max :: real where
  "float_max = 2 ^ 1024 - 2 ^ 971"

definition float_pow :: "real \<Rightarrow> int \<Rightarrow> exn + real" where
  "float_pow x n =
     (if x = 0 \<and> n < 0 then Inl (ZeroDivisionError ''0.0 cannot be raised to a negative power'')
      else if float_max < \<bar>x powi n\<bar> then Inl (OverflowError ''(34, Numerical result out of range)'')
      else Inr (x powi n))"

text \<open>
  \<^verbatim>\<open>calculate_delay(attempt)\<close> with \<open>n\<close> for the attempt; \<open>r\<close> is the value \<^verbatim>\<open>random.random()\<close> returns when jitter is
  enabled, a number in \<open>[0, 1)\<close>.
\<close>

definition calculate_delay :: "RetryConfig \<Rightarrow> real \<Rightarrow> int \<Rightarrow> exn + real" where
  "calculate_delay cfg r n =
     (case float_pow (exponential_base cfg) (n - 1) of
        Inl e \<Rightarrow> Inl e
      | Inr p \<Rightarrow>
          (let delay = min (base_delay cfg * p) (max_delay cfg)
           in if jitter cfg then Inr (delay * (0.5 + r * 0.5)) else Inr delay))"

subsection \<open>CircuitBreaker\<close>

text \<open>The attribute \<^verbatim>\<open>state\<close> holds one of the strings \<^verbatim>\<open>'CLOSED'\<close>, \<^verbatim>\<open>'OPEN'\<close>, \<^verbatim>\<open>'HALF_OPEN'\<close>.\<close>

datatype circuit_state = CLOSED | OPEN | HALF_OPEN

record CircuitBreaker =
  failure_threshold :: int
  recovery_timeout :: real
  expected_exception :: string
  failure_count :: int
  last_failure_time :: "real option"
  state :: circuit_state


definition should_attempt_reset :: "CircuitBreaker \<Rightarrow> real \<Rightarrow> bool" where
  "should_attempt_reset cb now =
     (case last_failure_time cb of
        None \<Rightarrow> True
      | Some t \<Rightarrow> now - t \<ge> recovery_timeout cb)"

definition on_success :: "CircuitBreaker \<Rightarrow> CircuitBreaker" where
  "on_success cb =
     (let cb1 = cb\<lparr>failure_count := 0\<rparr>
      in if state cb1 = HALF_OPEN then cb1\<lparr>state := CLOSED\<rparr> else cb1)"

definition on_failure :: "CircuitBreaker \<Rightarrow> real \<Rightarrow> CircuitBreaker" where
  "on_failure cb now =
     (let cb1 = cb\<lparr>failure_count := failure_count cb + 1, last_failure_time := Some now\<rparr>
      in if failure_count cb1 \<ge> failure_threshold cb1 then cb1\<lparr>state := OPEN\<rparr> else cb1)"

text \<open>
  One call of the wrapper that \<^verbatim>\<open>CircuitBreaker.__call__\<close> returns. The wrapped function
  is run at most once; \<open>func\<close> is what that run does (returns a value or raises), \<open>now\<close> is
  the clock when the wrapper is entered and \<open>later\<close> the clock when the function has
  raised. The first part of the wrapper is the gate on the \<^verbatim>\<open>OPEN\<close> state: it lets the call
  through (possibly as a \<^verbatim>\<open>HALF_OPEN\<close> trial) or raises without running the function.
\<close>

definition gate :: "CircuitBreaker \<Rightarrow> string \<Rightarrow> real \<Rightarrow> exn + CircuitBreaker" where
  "gate cb func_name now =
     (if state cb = OPEN then
        (if should_attempt_reset cb now then Inr (cb\<lparr>state := HALF_OPEN\<rparr>)
         else Inl (Exception (''Circuit breaker OPEN for '' @ func_name)))
      else Inr cb)"

record 'a call_result =
  outcome :: "exn + 'a"
  invoked :: bool
  breaker :: CircuitBreaker

definition wrapper ::
  "CircuitBreaker \<Rightarrow> string \<Rightarrow> real \<Rightarrow> exn + 'a \<Rightarrow> real \<Rightarrow> 'a call_result" where
  "wrapper cb func_name now func later =
     (case gate cb func_name now of
        Inl e \<Rightarrow> \<lparr>outcome = Inl e, invoked = False, breaker = cb\<rparr>
      | Inr cb1 \<Rightarrow>
          (case func of
             Inr result \<Rightarrow> \<lparr>outcome = Inr result, invoked = True, breaker = on_success cb1\<rparr>
           | Inl e \<Rightarrow>
               if isinstance e (expected_exception cb1)
               then \<lparr>outcome = Inl e, invoked = True, breaker = on_failure cb1 later\<rparr>
               else \<lparr>outcome = Inl e, invoked = True, breaker = cb1\<rparr>))"

text \<open>
  A history of calls through one breaker: each entry gives the clock at entry, what the
  wrapped function does if it is run, and the clock after it.
\<close>

type_synonym 'a call = "real \<times> (exn + 'a) \<times> real"

fun run_calls :: "CircuitBreaker \<Rightarrow> 'a call list \<Rightarrow> CircuitBreaker" where
  "run_calls cb [] = cb"
| "run_calls cb ((now, func, later) # cs) =
     run_calls (breaker (wrapper cb ''func'' now func later)) cs"

subsection \<open>retry\_with\_backoff\<close>

text \<open>\<^verbatim>\<open>time.sleep\<close> refuses a negative length.\<close>

definition sleep :: "real \<Rightarrow> exn + unit" where
  "sleep d = (if d < 0 then Inl (ValueError ''sleep length must be non-negative'') else Inr ())"





subsection \<open>ErrorRecoveryManager\<close>

type_synonym kwargs = "(string \<times> pyval) list"

text \<open>
  A recovery strategy or fallback handler is called with the error, the error context and
  the keyword arguments; it returns a value or raises.
\<close>

type_synonym handler = "exn \<Rightarrow> ErrorContext \<Rightarrow> kwargs \<Rightarrow> exn + pyval"

record ErrorRecoveryManager =
  error_history :: "ErrorContext list"
  recovery_strategies :: "string \<rightharpoonup> handler"
  fallback_handlers :: "string \<rightharpoonup> handler"

definition ErrorRecoveryManager_init :: ErrorRecoveryManager where
  "ErrorRecoveryManager_init =
     \<lparr>error_history = [], recovery_strategies = Map.empty, fallback_handlers = Map.empty\<rparr>"

definition register_recovery_strategy ::
  "string \<Rightarrow> handler \<Rightarrow> ErrorRecoveryManager \<Rightarrow> ErrorRecoveryManager" where
  "register_recovery_strategy etype strategy m =
     m\<lparr>recovery_strategies := (recovery_strategies m)(etype \<mapsto> strategy)\<rparr>"

definition register_fallback_handler ::
  "string \<Rightarrow> handler \<Rightarrow> ErrorRecoveryManager \<Rightarrow> ErrorRecoveryManager" where
  "register_fallback_handler oper h m =
     m\<lparr>fallback_handlers := (fallback_handlers m)(oper \<mapsto> h)\<rparr>"

text \<open>\<^verbatim>\<open>d.get(k, default)\<close> on a dictionary.\<close>

definition dict_get :: "(string \<times> pyval) list \<Rightarrow> string \<Rightarrow> pyval \<Rightarrow> pyval" where
  "dict_get d k dflt = (case map_of d k of None \<Rightarrow> dflt | Some v \<Rightarrow> v)"

text \<open>
  The \<^verbatim>\<open>ErrorContext\<close> that \<^verbatim>\<open>handle_error\<close> builds first; \<open>now\<close> is
  \<^verbatim>\<open>datetime.now().isoformat()\<close>.
\<close>

definition new_error_context ::
  "exn \<Rightarrow> string \<Rightarrow> string \<Rightarrow> kwargs \<Rightarrow> string \<Rightarrow> ErrorContext" where
  "new_error_context error oper comp_name context now =
     ErrorContext_post_init now
       \<lparr>operation = oper, component = comp_name, timestamp = now,
        attempt = dict_get context ''attempt'' (PInt 1),
        ErrorContext.max_attempts = dict_get context ''max_attempts'' (PInt 1),
        error_type = exc_name error, error_message = exc_str error,
        recovery_action = None\<rparr>"

text \<open>
  \<^verbatim>\<open>handle_error(error, operation, component, **context)\<close>. The error context is appended
  to the history first and then updated in place, so the history holds the context with the
  recovery action written last, whichever way the function is left: \<open>stored c\<close> is the
  manager whose last event is \<open>c\<close>. The result is the value returned (\<open>Inr\<close>) or the
  exception raised (\<open>Inl\<close>). \<open>context\<close> is the dictionary that Python binds to
  \<^verbatim>\<open>**context\<close>: a keyword named \<^verbatim>\<open>error\<close>, \<^verbatim>\<open>operation\<close> or \<^verbatim>\<open>component\<close> is refused
  when \<^verbatim>\<open>handle_error\<close> is called and does not reach it.
\<close>

definition handle_error ::
  "ErrorRecoveryManager \<Rightarrow> exn \<Rightarrow> string \<Rightarrow> string \<Rightarrow> kwargs \<Rightarrow> string
   \<Rightarrow> (exn + pyval) \<times> ErrorRecoveryManager" where
  "handle_error m error oper comp_name context now =
     (let etype = exc_name error;
          c0 = new_error_context error oper comp_name context now;
          stored = (\<lambda>c. m\<lparr>error_history := error_history m @ [c]\<rparr>);
          after_strategy =
            (case recovery_strategies m etype of
               None \<Rightarrow> Inr c0
             | Some strategy \<Rightarrow>
                 (case strategy error c0 context of
                    Inr result \<Rightarrow>
                      Inl (result, c0\<lparr>recovery_action := Some ''recovery_strategy_succeeded''\<rparr>)
                  | Inl recovery_error \<Rightarrow>
                      Inr (c0\<lparr>recovery_action := Some ''recovery_strategy_failed''\<rparr>)))
      in case after_strategy of
           Inl (result, c) \<Rightarrow> (Inr result, stored c)
         | Inr c1 \<Rightarrow>
             (let after_fallback =
                    (case fallback_handlers m oper of
                       None \<Rightarrow> Inr c1
                     | Some h \<Rightarrow>
                         (case h error c1 context of
                            Inr result \<Rightarrow>
                              Inl (result, c1\<lparr>recovery_action := Some ''fallback_succeeded''\<rparr>)
                          | Inl fallback_error \<Rightarrow>
                              Inr (c1\<lparr>recovery_action := Some ''fallback_failed''\<rparr>)))
              in case after_fallback of
                   Inl (result, c) \<Rightarrow> (Inr result, stored c)
                 | Inr c2 \<Rightarrow>
                     (Inl error, stored (c2\<lparr>recovery_action := Some ''no_recovery_available''\<rparr>))))"

text \<open>
  The strategies and the fallback that \<^verbatim>\<open>setup_default_recovery_strategies\<close> registers on
  the global manager. Each is a function \<^verbatim>\<open>f(error, context, **kwargs)\<close> that
  \<^verbatim>\<open>handle_error\<close> calls as \<^verbatim>\<open>f(error, error_context, **context)\<close>: a keyword argument
  named \<^verbatim>\<open>error\<close> or \<^verbatim>\<open>context\<close> gives a parameter a second value, and the call raises
  \<^verbatim>\<open>TypeError\<close> for the first such keyword, its message naming the function by its
  qualified name (\<open>local_name\<close> for a function local to
  \<^verbatim>\<open>setup_default_recovery_strategies\<close>). Otherwise the three strategies sleep and return
  \<^verbatim>\<open>None\<close>, and the fallback builds a placeholder review, \<open>generated_at\<close> being the time it
  is called.
\<close>

definition local_name :: "string \<Rightarrow> string" where
  "local_name n = ''setup_default_recovery_strategies.<locals>.'' @ n"

definition multiple_values :: "string \<Rightarrow> kwargs \<Rightarrow> exn option" where
  "multiple_values fname kw =
     (case find (\<lambda>k. k = ''error'' \<or> k = ''context'') (map fst kw) of
        None \<Rightarrow> None
      | Some k \<Rightarrow>
          Some (TypeError (fname @ ''() got multiple values for argument '' @ quoted k)))"

definition gitlab_connection_recovery :: handler where
  "gitlab_connection_recovery error c kw =
     (case multiple_values (local_name ''gitlab_connection_recovery'') kw of
        Some e \<Rightarrow> Inl e
      | None \<Rightarrow> Inr PNone)"

definition ollama_connection_recovery :: handler where
  "ollama_connection_recovery error c kw =
     (case multiple_values (local_name ''ollama_connection_recovery'') kw of
        Some e \<Rightarrow> Inl e
      | None \<Rightarrow> Inr PNone)"

definition rate_limit_recovery :: handler where
  "rate_limit_recovery error c kw =
     (case multiple_values (local_name ''rate_limit_recovery'') kw of
        Some e \<Rightarrow> Inl e
      | None \<Rightarrow> Inr PNone)"

definition review_generation_fallback :: "string \<Rightarrow> handler" where
  "review_generation_fallback generated_at error c kw =
     (case multiple_values (local_name ''review_generation_fallback'') kw of
        Some e \<Rightarrow> Inl e
      | None \<Rightarrow>
          Inr (PDict
            [(''summary'', PStr ''Review generation unavailable - manual review required''),
             (''detailed_comments'', PStr []),
             (''recommendations'', PStr []),
             (''line_comments'', PList []),
             (''overall_assessment'', PStr ''UNKNOWN''),
             (''metadata'', PDict [(''fallback'', PBool True), (''error'', PStr (exc_str error)),
                                  (''generated_at'', PStr generated_at)])]))"

definition setup_default_recovery_strategies ::
  "string \<Rightarrow> ErrorRecoveryManager \<Rightarrow> ErrorRecoveryManager" where
  "setup_default_recovery_strategies generated_at m =
     register_fallback_handler ''review_generation'' (review_generation_fallback generated_at)
       (register_recovery_strategy ''Timeout'' ollama_connection_recovery
         (register_recovery_strategy ''HTTPError'' rate_limit_recovery
           (register_recovery_strategy ''ConnectionError'' gitlab_connection_recovery m)))"

definition error_recovery :: "string \<Rightarrow> ErrorRecoveryManager" where
  "error_recovery generated_at =
     setup_default_recovery_strategies generated_at ErrorRecoveryManager_init"

section \<open>Operations of Python on values\<close>

text \<open>Running a step that may raise, and the rest only if it did not.\<close>

definition bind_exn :: "exn + 'a \<Rightarrow> ('a \<Rightarrow> exn + 'b) \<Rightarrow> exn + 'b" where
  "bind_exn m f = (case m of Inl e \<Rightarrow> Inl e | Inr x \<Rightarrow> f x)"

text \<open>
  A list comprehension \<^verbatim>\<open>[f(x) for x in xs]\<close>, one with a condition
  \<^verbatim>\<open>[x for x in xs if p(x)]\<close>, and \<^verbatim>\<open>any(p(x) for x in xs)\<close>, which stops at the first
  true element; each raises what the first failing element raises.
\<close>

fun map_exn :: "('a \<Rightarrow> exn + 'b) \<Rightarrow> 'a list \<Rightarrow> exn + 'b list" where
  "map_exn f [] = Inr []"
| "map_exn f (x # xs) = bind_exn (f x) (\<lambda>y. bind_exn (map_exn f xs) (\<lambda>ys. Inr (y # ys)))"

fun filter_exn :: "('a \<Rightarrow> exn + bool) \<Rightarrow> 'a list \<Rightarrow> exn + 'a list" where
  "filter_exn p [] = Inr []"
| "filter_exn p (x # xs) =
     bind_exn (p x) (\<lambda>b. bind_exn (filter_exn p xs) (\<lambda>ys. Inr (if b then x # ys else ys)))"

fun any_exn :: "('a \<Rightarrow> exn + bool) \<Rightarrow> 'a list \<Rightarrow> exn + bool" where
  "any_exn p [] = Inr False"
| "any_exn p (x # xs) = bind_exn (p x) (\<lambda>b. if b then Inr True else any_exn p xs)"

definition truthy :: "pyval \<Rightarrow> bool" where
  "truthy v =
     (case v of
        PNone \<Rightarrow> False
      | PBool b \<Rightarrow> b
      | PInt i \<Rightarrow> i \<noteq> 0
      | PStr s \<Rightarrow> s \<noteq> []
      | PList xs \<Rightarrow> xs \<noteq> []
      | PDict d \<Rightarrow> d \<noteq> [])"

definition type_name :: "pyval \<Rightarrow> string" where
  "type_name v =
     (case v of
        PNone \<Rightarrow> ''NoneType''
      | PBool b \<Rightarrow> ''bool''
      | PInt i \<Rightarrow> ''int''
      | PStr s \<Rightarrow> ''str''
      | PList xs \<Rightarrow> ''list''
      | PDict d \<Rightarrow> ''dict'')"

text \<open>
  The interpreter's own errors. Their class decides what the program does; the message
  texts are those of one CPython version.
\<close>

definition no_attribute :: "pyval \<Rightarrow> string \<Rightarrow> exn" where
  "no_attribute v a =
     AttributeError (quoted (type_name v) @ '' object has no attribute '' @ quoted a)"

text \<open>\<^verbatim>\<open>s.lower()\<close> on the letters A to Z.\<close>

definition char_lower :: "char \<Rightarrow> char" where
  "char_lower c =
     (let n = (of_char c :: nat) in if 65 \<le> n \<and> n \<le> 90 then char_of (n + 32) else c)"

definition lower :: "string \<Rightarrow> string" where
  "lower s = map char_lower s"

definition py_lower :: "pyval \<Rightarrow> exn + string" where
  "py_lower v = (case v of PStr s \<Rightarrow> Inr (lower s) | _ \<Rightarrow> Inl (no_attribute v ''lower''))"

text \<open>\<^verbatim>\<open>v.get(k, default)\<close> on any value.\<close>

definition py_get :: "pyval \<Rightarrow> string \<Rightarrow> pyval \<Rightarrow> exn + pyval" where
  "py_get v k dflt =
     (case v of PDict d \<Rightarrow> Inr (dict_get d k dflt) | _ \<Rightarrow> Inl (no_attribute v ''get''))"

text \<open>\<^verbatim>\<open>d[k]\<close> on a dictionary, and \<^verbatim>\<open>v[k]\<close> on any value, for a string \<open>k\<close>.\<close>

definition dict_item :: "(string \<times> pyval) list \<Rightarrow> string \<Rightarrow> exn + pyval" where
  "dict_item d k = (case map_of d k of None \<Rightarrow> Inl (KeyError (quoted k)) | Some v \<Rightarrow> Inr v)"

definition py_item :: "pyval \<Rightarrow> string \<Rightarrow> exn + pyval" where
  "py_item v k =
     (case v of
        PDict d \<Rightarrow> dict_item d k
      | PStr s \<Rightarrow> Inl (TypeError ''string indices must be integers'')
      | PList xs \<Rightarrow> Inl (TypeError ''list indices must be integers or slices, not str'')
      | _ \<Rightarrow> Inl (TypeError (quoted (type_name v) @ '' object is not subscriptable'')))"

text \<open>Iterating over a value: a list, the characters of a string, the keys of a dictionary.\<close>

definition py_iter :: "pyval \<Rightarrow> exn + pyval list" where
  "py_iter v =
     (case v of
        PList xs \<Rightarrow> Inr xs
      | PStr s \<Rightarrow> Inr (map (\<lambda>c. PStr [c]) s)
      | PDict d \<Rightarrow> Inr (map (\<lambda>kv. PStr (fst kv)) d)
      | _ \<Rightarrow> Inl (TypeError (quoted (type_name v) @ '' object is not iterable'')))"

text \<open>
  A set holds hashable values only; \<open>in_set v\<close> is adding \<open>v\<close> to a set. A set is kept as the
  list of its elements, compared with \<^verbatim>\<open>==\<close>.
\<close>

definition in_set :: "pyval \<Rightarrow> exn + pyval" where
  "in_set v =
     (case v of
        PList xs \<Rightarrow> Inl (TypeError (''unhashable type: '' @ quoted ''list''))
      | PDict d \<Rightarrow> Inl (TypeError (''unhashable type: '' @ quoted ''dict''))
      | _ \<Rightarrow> Inr v)"

definition py_set :: "pyval \<Rightarrow> exn + pyval list" where
  "py_set v = bind_exn (py_iter v) (map_exn in_set)"

fun py_eq :: "pyval \<Rightarrow> pyval \<Rightarrow> bool" where
  "py_eq PNone PNone = True"
| "py_eq (PBool a) (PBool b) = (a = b)"
| "py_eq (PBool a) (PInt i) = (of_bool a = i)"
| "py_eq (PInt i) (PBool a) = (of_bool a = i)"
| "py_eq (PInt i) (PInt j) = (i = j)"
| "py_eq (PStr s) (PStr t) = (s = t)"
| "py_eq (PList xs) (PList ys) = list_all2 py_eq xs ys"
| "py_eq (PDict a) (PDict b) =
     (list_all (\<lambda>(k, v). case map_of b k of None \<Rightarrow> False | Some w \<Rightarrow> py_eq v w) a
      \<and> list_all (\<lambda>(k, w). map_of a k \<noteq> None) b)"
| "py_eq _ _ = False"

text \<open>The truth value of \<^verbatim>\<open>a.intersection(b)\<close>: the two sets share an element.\<close>

definition intersects :: "pyval list \<Rightarrow> pyval list \<Rightarrow> bool" where
  "intersects a b = list_ex (\<lambda>x. list_ex (py_eq x) b) a"

text \<open>
  \<^verbatim>\<open>a >= b\<close>: strings by code points, numbers by value, lists by their first differing
  elements; a \<^verbatim>\<open>TypeError\<close> between other values.
\<close>

fun py_ge :: "pyval \<Rightarrow> pyval \<Rightarrow> exn + bool"
  and py_ge_list :: "pyval list \<Rightarrow> pyval list \<Rightarrow> exn + bool" where
  "py_ge (PStr s) (PStr t) = Inr (t \<le> s)"
| "py_ge (PInt i) (PInt j) = Inr (j \<le> i)"
| "py_ge (PInt i) (PBool b) = Inr (of_bool b \<le> i)"
| "py_ge (PBool a) (PInt j) = Inr (j \<le> of_bool a)"
| "py_ge (PBool a) (PBool b) = Inr (b \<le> a)"
| "py_ge (PList xs) (PList ys) = py_ge_list xs ys"
| "py_ge a b =
     Inl (TypeError (quoted ''>='' @ '' not supported between instances of ''
                     @ quoted (type_name a) @ '' and '' @ quoted (type_name b)))"
| "py_ge_list xs [] = Inr True"
| "py_ge_list [] (y # ys) = Inr False"
| "py_ge_list (x # xs) (y # ys) = (if py_eq x y then py_ge_list xs ys else py_ge x y)"

text \<open>\<^verbatim>\<open>xs[:n]\<close>: a negative \<open>n\<close> counts from the end.\<close>

definition slice_to :: "'a list \<Rightarrow> int \<Rightarrow> 'a list" where
  "slice_to xs n = (if 0 \<le> n then take (nat n) xs else take (nat (int (length xs) + n)) xs)"

section \<open>batch\_processor.py\<close>

subsection \<open>BatchResult and BatchSummary\<close>

text \<open>
  The fields that hold clock readings (\<^verbatim>\<open>processing_time\<close>, \<^verbatim>\<open>timestamp\<close>, and in the
  summary \<^verbatim>\<open>total_processing_time\<close>, \<^verbatim>\<open>average_processing_time\<close>, \<^verbatim>\<open>start_time\<close>,
  \<^verbatim>\<open>end_time\<close>) are left out of the two records; nothing else depends on them.
\<close>

record BatchResult =
  mr_iid :: pyval
  project_path :: pyval
  success :: bool
  review_type :: string
  complexity_score :: pyval
  risk_assessment :: pyval
  error :: "string option"
  review_posted :: bool
  file_count :: pyval
  lines_added :: pyval
  lines_removed :: pyval

record BatchSummary =
  total_mrs :: int
  successful_reviews :: int
  failed_reviews :: int
  reviews_posted :: int
  project_path :: string
  review_type :: string
  errors :: "string list"

definition success_rate :: "BatchSummary \<Rightarrow> real" where
  "success_rate s =
     (if total_mrs s = 0 then 0
      else (real_of_int (successful_reviews s) / real_of_int (total_mrs s)) * 100)"

subsection \<open>The collaborators and the processor\<close>

text \<open>
  The three collaborators are objects whose methods return a value or raise; each method is
  a function of its arguments. A merge request is a dictionary.
\<close>

type_synonym mr = "(string \<times> pyval) list"

record gitlab_client_obj =
  get_project_merge_requests :: "string \<Rightarrow> string \<Rightarrow> int \<Rightarrow> exn + mr list"
  get_mr_changes :: "pyval \<Rightarrow> pyval \<Rightarrow> exn + pyval"
  post_mr_note :: "pyval \<Rightarrow> pyval \<Rightarrow> pyval \<Rightarrow> exn + pyval"

record mr_analyzer_obj =
  analyze_mr_changes :: "mr \<Rightarrow> pyval \<Rightarrow> exn + pyval"

record review_generator_obj =
  generate_review :: "pyval \<Rightarrow> string \<Rightarrow> exn + pyval"
  format_for_gitlab :: "pyval \<Rightarrow> exn + pyval"

text \<open>
  A progress message is kept as the literal text of the f-string and the values put into
  its fields. The callback is called with \<open>(current, total, message)\<close>; it returns
  (\<open>None\<close>) or raises (\<open>Some e\<close>).
\<close>

type_synonym message = "string \<times> pyval list"

type_synonym callback = "int \<Rightarrow> int \<Rightarrow> message \<Rightarrow> exn option"

record BatchProcessor =
  gitlab_client :: gitlab_client_obj
  mr_analyzer :: mr_analyzer_obj
  review_generator :: review_generator_obj
  progress_callback :: "callback option"
  results :: "BatchResult list"

definition update_progress :: "BatchProcessor \<Rightarrow> int \<Rightarrow> int \<Rightarrow> message \<Rightarrow> exn option" where
  "update_progress bp current tot msg =
     (case progress_callback bp of None \<Rightarrow> None | Some f \<Rightarrow> f current tot msg)"

definition create_empty_summary :: "string \<Rightarrow> string \<Rightarrow> BatchSummary" where
  "create_empty_summary ppath rtype =
     \<lparr>total_mrs = 0, successful_reviews = 0, failed_reviews = 0, reviews_posted = 0,
      project_path = ppath, review_type = rtype, errors = []\<rparr>"

subsection \<open>Selecting the merge requests\<close>

text \<open>\<^verbatim>\<open>_apply_filters(mrs, filters)\<close>: the four filters, each applied if its key is present.\<close>

definition author_matches :: "string \<Rightarrow> mr \<Rightarrow> exn + bool" where
  "author_matches author_filter m =
     bind_exn (py_get (dict_get m ''author'' (PDict [])) ''username'' (PStr [])) (\<lambda>username.
     bind_exn (py_lower username) (\<lambda>l. Inr (sublist author_filter l)))"

definition label_names :: "mr \<Rightarrow> exn + pyval list" where
  "label_names m =
     bind_exn (py_iter (dict_get m ''labels'' (PList []))) (\<lambda>labels.
     map_exn (\<lambda>label. bind_exn (py_item label ''name'') in_set) labels)"

definition labels_match :: "pyval list \<Rightarrow> mr \<Rightarrow> exn + bool" where
  "labels_match required_labels m =
     bind_exn (label_names m) (\<lambda>names. Inr (intersects required_labels names))"

definition keyword_matches :: "mr \<Rightarrow> string \<Rightarrow> exn + bool" where
  "keyword_matches m kw =
     bind_exn (py_lower (dict_get m ''title'' (PStr []))) (\<lambda>title.
       if sublist kw title then Inr True
       else bind_exn (py_lower (dict_get m ''description'' (PStr []))) (\<lambda>description.
              Inr (sublist kw description)))"

definition apply_filters :: "mr list \<Rightarrow> (string \<times> pyval) list \<Rightarrow> exn + mr list" where
  "apply_filters mrs filters =
     bind_exn
       (case map_of filters ''author'' of
          None \<Rightarrow> Inr mrs
        | Some a \<Rightarrow>
            bind_exn (py_lower a) (\<lambda>author_filter. filter_exn (author_matches author_filter) mrs))
     (\<lambda>by_author.
     bind_exn
       (case map_of filters ''labels'' of
          None \<Rightarrow> Inr by_author
        | Some ls \<Rightarrow>
            bind_exn (py_set ls) (\<lambda>required_labels.
              filter_exn (labels_match required_labels) by_author))
     (\<lambda>by_labels.
     bind_exn
       (case map_of filters ''keywords'' of
          None \<Rightarrow> Inr by_labels
        | Some ks \<Rightarrow>
            bind_exn (py_iter ks) (\<lambda>kws.
            bind_exn (map_exn py_lower kws) (\<lambda>keywords.
              filter_exn (\<lambda>m. any_exn (keyword_matches m) keywords) by_labels)))
     (\<lambda>by_keywords.
       (case map_of filters ''created_after'' of
          None \<Rightarrow> Inr by_keywords
        | Some created_after \<Rightarrow>
            filter_exn (\<lambda>m. py_ge (dict_get m ''created_at'' (PStr [])) created_after)
              by_keywords))))"

text \<open>
  \<^verbatim>\<open>_get_mrs_to_process\<close>: the body of its \<^verbatim>\<open>try\<close>, and the function, which returns the
  empty list when the body raises.
\<close>

definition get_mrs_try ::
  "BatchProcessor \<Rightarrow> string \<Rightarrow> string \<Rightarrow> int \<Rightarrow> (string \<times> pyval) list option \<Rightarrow> exn + mr list" where
  "get_mrs_try bp ppath mr_state max_reviews filters =
     bind_exn (get_project_merge_requests (gitlab_client bp) ppath mr_state
                 (min (max_reviews * 2) 100)) (\<lambda>mrs.
     bind_exn (case filters of
                 None \<Rightarrow> Inr mrs
               | Some f \<Rightarrow> if f \<noteq> [] then apply_filters mrs f else Inr mrs) (\<lambda>filtered.
     Inr (slice_to filtered max_reviews)))"

definition get_mrs_to_process ::
  "BatchProcessor \<Rightarrow> string \<Rightarrow> string \<Rightarrow> int \<Rightarrow> (string \<times> pyval) list option \<Rightarrow> mr list" where
  "get_mrs_to_process bp ppath mr_state max_reviews filters =
     (case get_mrs_try bp ppath mr_state max_reviews filters of
        Inl e \<Rightarrow> []
      | Inr mrs \<Rightarrow> mrs)"

subsection \<open>One merge request\<close>

text \<open>The result recorded for a merge request whose processing failed with error text \<open>msg\<close>.\<close>

definition failed_result :: "pyval \<Rightarrow> pyval \<Rightarrow> string \<Rightarrow> string \<Rightarrow> BatchResult" where
  "failed_result iid ppath rtype msg =
     \<lparr>mr_iid = iid, BatchResult.project_path = ppath, success = False,
      BatchResult.review_type = rtype, complexity_score = PInt 0, risk_assessment = PStr [],
      error = Some msg, review_posted = False, file_count = PInt 0, lines_added = PInt 0,
      lines_removed = PInt 0\<rparr>"

text \<open>
  Posting the review: attempted when \<^verbatim>\<open>post_review and review.get('summary')\<close> holds; a
  failure to format or to post is logged and leaves \<^verbatim>\<open>review_posted\<close> false.
\<close>

definition post_if_requested ::
  "BatchProcessor \<Rightarrow> pyval \<Rightarrow> pyval \<Rightarrow> pyval \<Rightarrow> bool \<Rightarrow> exn + bool" where
  "post_if_requested bp ppath iid review post_review =
     (if \<not> post_review then Inr False
      else bind_exn (py_get review ''summary'' PNone) (\<lambda>summary.
             if \<not> truthy summary then Inr False
             else (case format_for_gitlab (review_generator bp) review of
                     Inl e \<Rightarrow> Inr False
                   | Inr gitlab_comment \<Rightarrow>
                       (case post_mr_note (gitlab_client bp) ppath iid gitlab_comment of
                          Inl e \<Rightarrow> Inr False
                        | Inr note \<Rightarrow> Inr True))))"

text \<open>The body of the \<^verbatim>\<open>try\<close> of \<^verbatim>\<open>_process_single_mr\<close>.\<close>

definition single_mr_try ::
  "BatchProcessor \<Rightarrow> mr \<Rightarrow> pyval \<Rightarrow> pyval \<Rightarrow> string \<Rightarrow> bool \<Rightarrow> exn + BatchResult" where
  "single_mr_try bp m iid ppath rtype post_review =
     bind_exn (get_mr_changes (gitlab_client bp) ppath iid) (\<lambda>changes_data.
     bind_exn (analyze_mr_changes (mr_analyzer bp) m changes_data) (\<lambda>analysis.
     bind_exn (generate_review (review_generator bp) analysis rtype) (\<lambda>review.
     bind_exn (post_if_requested bp ppath iid review post_review) (\<lambda>posted.
     bind_exn (bind_exn (py_item analysis ''impact_analysis'') (\<lambda>i. py_item i ''complexity_score''))
       (\<lambda>complexity.
     bind_exn (py_get review ''overall_assessment'' (PStr ''UNKNOWN'')) (\<lambda>risk.
     bind_exn (bind_exn (py_item analysis ''impact_analysis'') (\<lambda>i. py_item i ''files_count''))
       (\<lambda>files.
     bind_exn (bind_exn (py_item analysis ''impact_analysis'') (\<lambda>i. py_item i ''lines_added''))
       (\<lambda>added.
     bind_exn (bind_exn (py_item analysis ''impact_analysis'') (\<lambda>i. py_item i ''lines_removed''))
       (\<lambda>removed.
     Inr \<lparr>mr_iid = iid, BatchResult.project_path = ppath, success = True,
          BatchResult.review_type = rtype, complexity_score = complexity,
          risk_assessment = risk, error = None, review_posted = posted, file_count = files,
          lines_added = added, lines_removed = removed\<rparr>)))))))))"

text \<open>
  \<^verbatim>\<open>_process_single_mr\<close>: \<^verbatim>\<open>mr['iid']\<close> is read before the \<^verbatim>\<open>try\<close>, so a merge request
  without that key makes the function raise; every exception of the body becomes a failed
  result.
\<close>

definition process_single_mr :: "BatchProcessor \<Rightarrow> mr \<Rightarrow> string \<Rightarrow> bool \<Rightarrow> exn + BatchResult" where
  "process_single_mr bp m rtype post_review =
     bind_exn (dict_item m ''iid'') (\<lambda>iid.
       let ppath = dict_get m ''project_path'' (PStr [])
       in (case single_mr_try bp m iid ppath rtype post_review of
             Inr result \<Rightarrow> Inr result
           | Inl e \<Rightarrow> Inr (failed_result iid ppath rtype (exc_str e))))"

subsection \<open>Sequential and parallel dispatch\<close>

text \<open>
  Both loops return the exception that left them, if any, and the processor with the
  results appended so far. \<open>i\<close> is the index that \<^verbatim>\<open>enumerate(mrs, 1)\<close> gives; the sleep
  between two reviews is made when \<open>delay > 0\<close>.
\<close>

fun sequential_loop ::
  "BatchProcessor \<Rightarrow> int \<Rightarrow> string \<Rightarrow> bool \<Rightarrow> real \<Rightarrow> int \<Rightarrow> mr list
   \<Rightarrow> exn option \<times> BatchProcessor" where
  "sequential_loop bp tot rtype post delay i [] = (None, bp)"
| "sequential_loop bp tot rtype post delay i (m # rest) =
     (case dict_item m ''iid'' of
        Inl e \<Rightarrow> (Some e, bp)
      | Inr iid \<Rightarrow>
          (case update_progress bp (i - 1) tot (''Processing MR #{}'', [iid]) of
             Some e \<Rightarrow> (Some e, bp)
           | None \<Rightarrow>
               (case process_single_mr bp m rtype post of
                  Inl e \<Rightarrow> (Some e, bp)
                | Inr result \<Rightarrow>
                    (let bp1 = bp\<lparr>results := results bp @ [result]\<rparr>
                     in case (if i < tot \<and> delay > 0 then sleep delay else Inr ()) of
                          Inl e \<Rightarrow> (Some e, bp1)
                        | Inr u \<Rightarrow> sequential_loop bp1 tot rtype post delay (i + 1) rest))))"

definition process_sequential ::
  "BatchProcessor \<Rightarrow> mr list \<Rightarrow> string \<Rightarrow> bool \<Rightarrow> real \<Rightarrow> exn option \<times> BatchProcessor" where
  "process_sequential bp mrs rtype post delay =
     (let tot = int (length mrs)
      in case sequential_loop bp tot rtype post delay 1 mrs of
           (Some e, bp1) \<Rightarrow> (Some e, bp1)
         | (None, bp1) \<Rightarrow>
             (update_progress bp1 tot tot (''Batch processing completed'', []), bp1))"

text \<open>
  The jobs submitted to the pool: each merge request with what its worker does. The
  workers only call the collaborators; the results list is written by the thread that
  collects.
\<close>

type_synonym future = "mr \<times> (exn + BatchResult)"

definition submit_all :: "BatchProcessor \<Rightarrow> mr list \<Rightarrow> string \<Rightarrow> bool \<Rightarrow> future list" where
  "submit_all bp mrs rtype post = map (\<lambda>m. (m, process_single_mr bp m rtype post)) mrs"

text \<open>
  \<^verbatim>\<open>as_completed\<close> yields the futures in the order in which they complete. The order is
  given by a schedule: each number picks, among the futures still pending, the one that
  completes next; when the schedule is used up the rest complete in submission order.
\<close>

function as_completed :: "nat list \<Rightarrow> 'a list \<Rightarrow> 'a list" where
  "as_completed sched [] = []"
| "as_completed [] (f # fs) = f # fs"
| "as_completed (c # sched) (f # fs) =
     (let i = c mod length (f # fs)
      in (f # fs) ! i # as_completed sched (take i (f # fs) @ drop (Suc i) (f # fs)))"
  by pat_completeness auto
termination
  by (relation "measure (\<lambda>(sched, fs). length fs)") auto

text \<open>
  The loop over the completed futures. \<open>tried\<close> is the body of the \<^verbatim>\<open>try\<close>: the result of the
  future is appended and the progress callback called; if the future or the callback
  raised, the handler appends a failed result built from the merge request. The sleep
  after each completion is made when \<open>delay > 0\<close>.
\<close>

fun parallel_loop ::
  "BatchProcessor \<Rightarrow> int \<Rightarrow> string \<Rightarrow> real \<Rightarrow> int \<Rightarrow> future list
   \<Rightarrow> exn option \<times> BatchProcessor" where
  "parallel_loop bp tot rtype delay completed [] = (None, bp)"
| "parallel_loop bp tot rtype delay completed ((m, fut) # rest) =
     (let completed1 = completed + 1;
          tried =
            (case fut of
               Inl e \<Rightarrow> (Some e, bp)
             | Inr result \<Rightarrow>
                 (let bp1 = bp\<lparr>results := results bp @ [result]\<rparr>
                  in case dict_item m ''iid'' of
                       Inl e \<Rightarrow> (Some e, bp1)
                     | Inr iid \<Rightarrow>
                         (update_progress bp1 completed1 tot
                            (''Completed MR #{} ({}/{})'', [iid, PInt completed1, PInt tot]),
                          bp1)));
          handled =
            (case tried of
               (None, bp1) \<Rightarrow> (None, bp1)
             | (Some e, bp1) \<Rightarrow>
                 (case dict_item m ''iid'' of
                    Inl e2 \<Rightarrow> (Some e2, bp1)
                  | Inr iid \<Rightarrow>
                      (None,
                       bp1\<lparr>results := results bp1 @
                         [failed_result iid (dict_get m ''project_path'' (PStr [])) rtype
                            (exc_str e)]\<rparr>)))
      in case handled of
           (Some e, bp2) \<Rightarrow> (Some e, bp2)
         | (None, bp2) \<Rightarrow>
             (case (if delay > 0 then sleep delay else Inr ()) of
                Inl e \<Rightarrow> (Some e, bp2)
              | Inr u \<Rightarrow> parallel_loop bp2 tot rtype delay completed1 rest))"

text \<open>\<^verbatim>\<open>ThreadPoolExecutor(max_workers=workers)\<close> refuses a number of workers below 1.\<close>

definition process_parallel ::
  "BatchProcessor \<Rightarrow> mr list \<Rightarrow> string \<Rightarrow> bool \<Rightarrow> int \<Rightarrow> real \<Rightarrow> nat list
   \<Rightarrow> exn option \<times> BatchProcessor" where
  "process_parallel bp mrs rtype post workers delay sched =
     (let tot = int (length mrs)
      in if workers \<le> 0 then (Some (ValueError ''max_workers must be greater than 0''), bp)
         else
           (let future_to_mr = submit_all bp mrs rtype post
            in case parallel_loop bp tot rtype delay 0 (as_completed sched future_to_mr) of
                 (Some e, bp1) \<Rightarrow> (Some e, bp1)
               | (None, bp1) \<Rightarrow>
                   (update_progress bp1 tot tot (''Parallel processing completed'', []), bp1)))"

subsection \<open>The batch run\<close>

text \<open>The summary computed from the collected results and the run-level errors.\<close>

definition summarize :: "BatchResult list \<Rightarrow> string \<Rightarrow> string \<Rightarrow> string list \<Rightarrow> BatchSummary" where
  "summarize rs ppath rtype errs =
     (let successful = int (length (filter success rs));
          failed = int (length rs) - successful;
          posted = int (length (filter review_posted rs))
      in \<lparr>total_mrs = int (length rs), successful_reviews = successful, failed_reviews = failed,
          reviews_posted = posted, project_path = ppath, review_type = rtype, errors = errs\<rparr>)"

text \<open>
  The \<^verbatim>\<open>try\<close> of \<^verbatim>\<open>process_project_mrs\<close> once merge requests have been found: the first
  progress call and the dispatch.
\<close>

definition dispatch ::
  "BatchProcessor \<Rightarrow> mr list \<Rightarrow> string \<Rightarrow> bool \<Rightarrow> int \<Rightarrow> real \<Rightarrow> nat list
   \<Rightarrow> exn option \<times> BatchProcessor" where
  "dispatch bp mrs rtype post parallel_workers delay sched =
     (case update_progress bp 0 (int (length mrs)) (''Starting batch processing...'', []) of
        Some e \<Rightarrow> (Some e, bp)
      | None \<Rightarrow>
          if parallel_workers > 1
          then process_parallel bp mrs rtype post parallel_workers delay sched
          else process_sequential bp mrs rtype post delay)"

text \<open>
  \<^verbatim>\<open>process_project_mrs\<close> returns the summary and leaves the results in the processor;
  \<open>sched\<close> is the order in which the futures of a parallel run complete.
\<close>

definition process_project_mrs ::
  "BatchProcessor \<Rightarrow> string \<Rightarrow> string \<Rightarrow> string \<Rightarrow> int \<Rightarrow> bool \<Rightarrow> int \<Rightarrow> real
   \<Rightarrow> (string \<times> pyval) list option \<Rightarrow> nat list \<Rightarrow> BatchSummary \<times> BatchProcessor" where
  "process_project_mrs bp ppath rtype mr_state max_reviews post_reviews parallel_workers
     delay_between_reviews filters sched =
     (let bp0 = bp\<lparr>results := []\<rparr>;
          mrs = get_mrs_to_process bp0 ppath mr_state max_reviews filters
      in if length mrs = 0 then (create_empty_summary ppath rtype, bp0)
         else (case dispatch bp0 mrs rtype post_reviews parallel_workers delay_between_reviews
                      sched of
                 (None, bp1) \<Rightarrow> (summarize (results bp1) ppath rtype [], bp1)
               | (Some e, bp1) \<Rightarrow>
                   (summarize (results bp1) ppath rtype
                      [''Batch processing failed: '' @ exc_str e], bp1)))"

section \<open>Notions used to state the properties\<close>

text \<open>
  The delay as the specification writes it:
  \<open>min(base_delay * exponential_base^(attempt-1), max_delay)\<close>.
\<close>

definition delay_spec :: "RetryConfig \<Rightarrow> int \<Rightarrow> real" where
  "delay_spec cfg n = min (base_delay cfg * exponential_base cfg ^ nat (n - 1)) (max_delay cfg)"

text \<open>The power computed for attempt \<open>n\<close> is a finite double.\<close>

definition in_float_range :: "RetryConfig \<Rightarrow> int \<Rightarrow> bool" where
  "in_float_range cfg n = (\<bar>exponential_base cfg ^ nat (n - 1)\<bar> \<le> float_max)"





text \<open>
  For one call of \<^verbatim>\<open>handle_error\<close>: the registered recovery strategy, if any, returns; and
  the registered fallback handler, if any, returns when it is called with the context as
  the failed or absent strategy leaves it.
\<close>

definition strategy_returns ::
  "ErrorRecoveryManager \<Rightarrow> exn \<Rightarrow> string \<Rightarrow> string \<Rightarrow> kwargs \<Rightarrow> string \<Rightarrow> bool" where
  "strategy_returns m err oper comp_name context now =
     (case recovery_strategies m (exc_name err) of
        None \<Rightarrow> False
      | Some strategy \<Rightarrow>
          \<not> isl (strategy err (new_error_context err oper comp_name context now) context))"

definition fallback_returns ::
  "ErrorRecoveryManager \<Rightarrow> exn \<Rightarrow> string \<Rightarrow> string \<Rightarrow> kwargs \<Rightarrow> string \<Rightarrow> bool" where
  "fallback_returns m err oper comp_name context now =
     (case fallback_handlers m oper of
        None \<Rightarrow> False
      | Some h \<Rightarrow>
          \<not> isl (h err
                   (case recovery_strategies m (exc_name err) of
                      None \<Rightarrow> new_error_context err oper comp_name context now
                    | Some strategy \<Rightarrow>
                        (new_error_context err oper comp_name context now)
                          \<lparr>recovery_action := Some ''recovery_strategy_failed''\<rparr>)
                   context))"

text \<open>
  Handlers for the examples, each a function \<^verbatim>\<open>f(error, context, **kwargs)\<close>: a fallback
  and a strategy whose bodies raise, and a strategy that returns a value.
\<close>

definition broken_fallback :: handler where
  "broken_fallback err c kw =
     (case multiple_values ''broken_fallback'' kw of
        Some e \<Rightarrow> Inl e
      | None \<Rightarrow> Inl (Exception ''fallback broke''))"

definition broken_strategy :: handler where
  "broken_strategy err c kw =
     (case multiple_values ''broken_strategy'' kw of
        Some e \<Rightarrow> Inl e
      | None \<Rightarrow> Inl (Exception ''strategy broke''))"

definition fixed_strategy :: handler where
  "fixed_strategy err c kw =
     (case multiple_values ''fixed_strategy'' kw of
        Some e \<Rightarrow> Inl e
      | None \<Rightarrow> Inr (PStr ''recovered_value''))"

definition fixed_fallback :: handler where
  "fixed_fallback err c kw =
     (case multiple_values ''fixed_fallback'' kw of
        Some e \<Rightarrow> Inl e
      | None \<Rightarrow> Inr (PStr ''fallback_value''))"





definition iid_of :: "mr \<Rightarrow> pyval" where
  "iid_of m = dict_get m ''iid'' PNone"

text \<open>The progress callback of the processor does not raise, whatever it is called with.\<close>

definition quiet :: "BatchProcessor \<Rightarrow> bool" where
  "quiet bp = (\<forall>current tot msg. update_progress bp current tot msg = None)"


text \<open>
  Collaborators for the examples. The client lists the merge requests 1 and 2 and has no
  changes for 2; the analyzer and the generator always answer.
\<close>

definition mr_1 :: mr where
  "mr_1 = [(''iid'', PInt 1), (''title'', PStr ''MR 1''),
           (''author'', PDict [(''username'', PStr ''user1'')]),
           (''labels'', PList [PDict [(''name'', PStr ''enhancement'')]])]"

definition mr_2 :: mr where
  "mr_2 = [(''iid'', PInt 2), (''title'', PStr ''MR 2''),
           (''author'', PDict [(''username'', PStr ''user2'')]),
           (''labels'', PList [PDict [(''name'', PStr ''bugfix'')]])]"

definition client_two :: gitlab_client_obj where
  "client_two =
     \<lparr>get_project_merge_requests = (\<lambda>ppath mr_state per_page. Inr [mr_1, mr_2]),
      get_mr_changes = (\<lambda>ppath iid.
         if iid = PInt 2 then Inl (Exception ''API Error'') else Inr (PDict [(''changes'', PList [])])),
      post_mr_note = (\<lambda>ppath iid note. Inr (PDict [(''id'', PInt 123)]))\<rparr>"

definition client_one :: gitlab_client_obj where
  "client_one =
     \<lparr>get_project_merge_requests = (\<lambda>ppath mr_state per_page. Inr [mr_1]),
      get_mr_changes = (\<lambda>ppath iid. Inr (PDict [(''changes'', PList [])])),
      post_mr_note = (\<lambda>ppath iid note. Inr (PDict [(''id'', PInt 123)]))\<rparr>"

definition client_down :: gitlab_client_obj where
  "client_down =
     \<lparr>get_project_merge_requests = (\<lambda>ppath mr_state per_page.
         Inl (requests_ConnectionError ''Connection refused'')),
      get_mr_changes = (\<lambda>ppath iid. Inl (requests_ConnectionError ''Connection refused'')),
      post_mr_note = (\<lambda>ppath iid note. Inl (requests_ConnectionError ''Connection refused''))\<rparr>"

definition analyzer_ok :: mr_analyzer_obj where
  "analyzer_ok =
     \<lparr>analyze_mr_changes = (\<lambda>m changes.
         Inr (PDict [(''impact_analysis'',
                PDict [(''complexity_score'', PInt 45), (''files_count'', PInt 3),
                       (''lines_added'', PInt 20), (''lines_removed'', PInt 5)])]))\<rparr>"

definition generator_ok :: review_generator_obj where
  "generator_ok =
     \<lparr>generate_review = (\<lambda>analysis rtype.
         Inr (PDict [(''summary'', PStr ''Test review''),
                     (''overall_assessment'', PStr ''MEDIUM_RISK'')])),
      format_for_gitlab = (\<lambda>review. Inr (PStr ''Formatted review''))\<rparr>"

definition processor_two :: BatchProcessor where
  "processor_two =
     \<lparr>gitlab_client = client_two, mr_analyzer = analyzer_ok, review_generator = generator_ok,
      progress_callback = None, results = []\<rparr>"

definition processor_down :: BatchProcessor where
  "processor_down =
     \<lparr>gitlab_client = client_down, mr_analyzer = analyzer_ok, review_generator = generator_ok,
      progress_callback = None, results = []\<rparr>"

text \<open>A callback that raises when it is told that a merge request is about to be processed.\<close>

definition picky_callback :: callback where
  "picky_callback current tot msg =
     (if fst msg = ''Processing MR #{}'' then Some (Exception ''callback failed'') else None)"

definition processor_picky :: BatchProcessor where
  "processor_picky =
     \<lparr>gitlab_client = client_one, mr_analyzer = analyzer_ok, review_generator = generator_ok,
      progress_callback = Some picky_callback, results = []\<rparr>"

text \<open>
  A callback that raises when it is called with one merge request done, and a processor
  with that callback and the client that lists the merge requests 1 and 2.
\<close>

definition late_callback :: callback where
  "late_callback current tot msg =
     (if current = 1 then Some (Exception ''callback failed'') else None)"

definition processor_late :: BatchProcessor where
  "processor_late =
     \<lparr>gitlab_client = client_two, mr_analyzer = analyzer_ok, review_generator = generator_ok,
      progress_callback = Some late_callback, results = []\<rparr>"

text \<open>
  The result record that the worker produces for a merge request that has its \<^verbatim>\<open>iid\<close>:
  that of the \<^verbatim>\<open>try\<close> body, or a failed one with the text of what the body raised.
\<close>

definition worker :: "BatchProcessor \<Rightarrow> string \<Rightarrow> bool \<Rightarrow> mr \<Rightarrow> BatchResult" where
  "worker bp rtype post m =
     (case single_mr_try bp m (iid_of m) (dict_get m ''project_path'' (PStr [])) rtype post of
        Inr result \<Rightarrow> result
      | Inl e \<Rightarrow>
          failed_result (iid_of m) (dict_get m ''project_path'' (PStr [])) rtype (exc_str e))"




section \<open>Backoff delay\<close>

lemma float_pow_nonneg:
  "0 \<le> n \<Longrightarrow> \<bar>x ^ nat n\<bar> \<le> float_max \<Longrightarrow> float_pow x n = Inr (x ^ nat n)"
  by (simp add: float_pow_def power_int_def)

lemma calculate_delay_no_jitter:
  "1 \<le> n \<Longrightarrow> in_float_range cfg n \<Longrightarrow> \<not> jitter cfg \<Longrightarrow>
   calculate_delay cfg r n = Inr (delay_spec cfg n)"
  by (simp add: calculate_delay_def in_float_range_def delay_spec_def float_pow_nonneg)

lemma calculate_delay_jitter:
  "1 \<le> n \<Longrightarrow> in_float_range cfg n \<Longrightarrow> jitter cfg \<Longrightarrow>
   calculate_delay cfg r n = Inr (delay_spec cfg n * (0.5 + r * 0.5))"
  by (simp add: calculate_delay_def in_float_range_def delay_spec_def float_pow_nonneg)

lemma delay_spec_le_max: "delay_spec cfg n \<le> max_delay cfg"
  by (simp add: delay_spec_def)

lemma delay_spec_mono:
  assumes "0 \<le> base_delay cfg" "1 \<le> exponential_base cfg" "k \<le> n"
  shows "delay_spec cfg k \<le> delay_spec cfg n"
proof -
  have "nat (k - 1) \<le> nat (n - 1)" using assms(3) by simp
  then have "exponential_base cfg ^ nat (k - 1) \<le> exponential_base cfg ^ nat (n - 1)"
    using assms(2) by (rule power_increasing)
  then have "base_delay cfg * exponential_base cfg ^ nat (k - 1)
             \<le> base_delay cfg * exponential_base cfg ^ nat (n - 1)"
    using assms(1) by (rule mult_left_mono)
  then show ?thesis unfolding delay_spec_def by (rule min.mono) simp
qed

lemma in_float_range_mono:
  assumes "1 \<le> exponential_base cfg" "k \<le> n" "in_float_range cfg n"
  shows "in_float_range cfg k"
proof -
  have "nat (k - 1) \<le> nat (n - 1)" using assms(2) by simp
  then have "exponential_base cfg ^ nat (k - 1) \<le> exponential_base cfg ^ nat (n - 1)"
    using assms(1) by (rule power_increasing)
  moreover have "0 \<le> exponential_base cfg ^ nat (k - 1)" using assms(1) by simp
  ultimately show ?thesis using assms(3) unfolding in_float_range_def by simp
qed

lemma jitter_le_max:
  assumes "0 \<le> m" "d \<le> m" "0 \<le> r" "r \<le> 1"
  shows "d * (0.5 + r * 0.5) \<le> (m::real)"
proof (cases "0 \<le> d")
  case True
  have "0.5 + r * 0.5 \<le> (1::real)" using assms(4) by simp
  then have "d * (0.5 + r * 0.5) \<le> d * 1" using True by (rule mult_left_mono)
  then show ?thesis using assms(2) by simp
next
  case False
  have "0 \<le> 0.5 + r * 0.5" using assms(3) by simp
  then have "d * (0.5 + r * 0.5) \<le> 0" using False by (simp add: mult_le_0_iff)
  then show ?thesis using assms(1) by simp
qed

text \<open>
  C6, as stated: for every attempt \<open>\<ge> 1\<close> the delay without jitter is non-decreasing in the
  attempt. It is not, for a configuration whose \<open>exponential_base\<close> is below 1: with
  \<^verbatim>\<open>RetryConfig(exponential_base=0.5, jitter=False)\<close> the delay of attempt 1 is 1 and the
  delay of attempt 2 is 1/2.
\<close>

theorem calculate_delay_decreasing_counterexample:
  "calculate_delay (RetryConfig_default\<lparr>exponential_base := 1/2, jitter := False\<rparr>) 0 1 = Inr 1
   \<and> calculate_delay (RetryConfig_default\<lparr>exponential_base := 1/2, jitter := False\<rparr>) 0 2
       = Inr (1/2)
   \<and> \<not> ((1::real) \<le> 1/2)"
  by (simp add: calculate_delay_def float_pow_def float_max_def RetryConfig_default_def)

text \<open>
  C6, amended: for every attempt \<open>n \<ge> 1\<close> whose power \<open>exponential_base^(n-1)\<close> is a finite
  double, \<open>calculate_delay\<close> with jitter disabled returns
  \<open>min(base_delay * exponential_base^(n-1), max_delay)\<close>, which never exceeds \<open>max_delay\<close>; it
  is non-decreasing in the attempt when \<open>base_delay \<ge> 0\<close> and \<open>exponential_base \<ge> 1\<close>; with
  jitter enabled the result is that value scaled by the factor \<open>0.5 + r * 0.5\<close>, which lies in
  \<open>[0.5, 1]\<close> for the random number \<open>r\<close> in \<open>[0, 1)\<close>, and it does not exceed \<open>max_delay\<close>
  when \<open>max_delay \<ge> 0\<close>.
\<close>

theorem calculate_delay_bounds:
  assumes "1 \<le> n" and "in_float_range cfg n"
  shows "(\<not> jitter cfg \<longrightarrow>
            calculate_delay cfg r n = Inr (delay_spec cfg n) \<and> delay_spec cfg n \<le> max_delay cfg)
       \<and> (\<not> jitter cfg \<and> 0 \<le> base_delay cfg \<and> 1 \<le> exponential_base cfg \<and> 1 \<le> k \<and> k \<le> n \<longrightarrow>
            calculate_delay cfg r' k = Inr (delay_spec cfg k) \<and> delay_spec cfg k \<le> delay_spec cfg n)
       \<and> (jitter cfg \<and> 0 \<le> r \<and> r < 1 \<longrightarrow>
            calculate_delay cfg r n = Inr (delay_spec cfg n * (0.5 + r * 0.5))
            \<and> 0.5 \<le> 0.5 + r * 0.5 \<and> 0.5 + r * 0.5 \<le> 1
            \<and> (0 \<le> max_delay cfg \<longrightarrow> delay_spec cfg n * (0.5 + r * 0.5) \<le> max_delay cfg))"
proof (intro conjI impI)
  assume "\<not> jitter cfg"
  with assms show "calculate_delay cfg r n = Inr (delay_spec cfg n)"
    by (rule calculate_delay_no_jitter)
next
  show "delay_spec cfg n \<le> max_delay cfg" by (rule delay_spec_le_max)
next
  assume h: "\<not> jitter cfg \<and> 0 \<le> base_delay cfg \<and> 1 \<le> exponential_base cfg \<and> 1 \<le> k \<and> k \<le> n"
  then have "in_float_range cfg k" using assms(2) in_float_range_mono by blast
  then show "calculate_delay cfg r' k = Inr (delay_spec cfg k)"
    using h by (simp add: calculate_delay_no_jitter)
  show "delay_spec cfg k \<le> delay_spec cfg n" using h by (simp add: delay_spec_mono)
next
  assume h: "jitter cfg \<and> 0 \<le> r \<and> r < 1"
  then show "calculate_delay cfg r n = Inr (delay_spec cfg n * (0.5 + r * 0.5))"
    using assms by (simp add: calculate_delay_jitter)
  show "0.5 \<le> 0.5 + r * 0.5" using h by simp
  show "0.5 + r * 0.5 \<le> 1" using h by simp
  assume m: "0 \<le> max_delay cfg"
  have "0 \<le> r" "r \<le> 1" using h by simp_all
  with m delay_spec_le_max [of cfg n]
  show "delay_spec cfg n * (0.5 + r * 0.5) \<le> max_delay cfg"
    by (rule jitter_le_max)
qed

theorem calculate_delay_bounds_witness:
  "(1::int) \<le> 3
   \<and> in_float_range (RetryConfig_default\<lparr>jitter := False\<rparr>) 3
   \<and> in_float_range RetryConfig_default 3
   \<and> calculate_delay (RetryConfig_default\<lparr>jitter := False\<rparr>) 0 3 = Inr 4
   \<and> calculate_delay (RetryConfig_default\<lparr>jitter := False\<rparr>) 0 2 = Inr 2
   \<and> (2::real) \<le> 4 \<and> (4::real) \<le> 60
   \<and> calculate_delay RetryConfig_default (1/2) 3 = Inr 3"
  using calculate_delay_bounds [of 3 "RetryConfig_default\<lparr>jitter := False\<rparr>" 0 2 0]
        calculate_delay_bounds [of 3 RetryConfig_default "1/2" 2 0]
  by (simp add: in_float_range_def delay_spec_def RetryConfig_default_def float_max_def)

section \<open>Circuit breaker\<close>








lemma params_wrapper [simp]:
  "failure_threshold (breaker (wrapper cb name now func later)) = failure_threshold cb"
  "recovery_timeout (breaker (wrapper cb name now func later)) = recovery_timeout cb"
  "expected_exception (breaker (wrapper cb name now func later)) = expected_exception cb"
  by (auto simp: wrapper_def gate_def on_success_def on_failure_def Let_def split: sum.splits)

lemma params_run [simp]:
  "failure_threshold (run_calls cb cs) = failure_threshold cb"
  "recovery_timeout (run_calls cb cs) = recovery_timeout cb"
  "expected_exception (run_calls cb cs) = expected_exception cb"
  by (induction cb cs rule: run_calls.induct) simp_all














section \<open>Retry with backoff\<close>









section \<open>Error recovery manager\<close>

lemma handle_error_strategy_returns:
  assumes "recovery_strategies m (exc_name err) = Some strategy"
    and "strategy err (new_error_context err oper cn context now) context = Inr v"
  shows "handle_error m err oper cn context now =
           (Inr v, m\<lparr>error_history := error_history m @
              [(new_error_context err oper cn context now)
                 \<lparr>recovery_action := Some ''recovery_strategy_succeeded''\<rparr>]\<rparr>)"
  using assms by (simp add: handle_error_def Let_def)

lemma handle_error_raises:
  assumes "\<not> strategy_returns m err oper cn context now"
    and "\<not> fallback_returns m err oper cn context now"
  shows "handle_error m err oper cn context now =
           (Inl err, m\<lparr>error_history := error_history m @
              [(new_error_context err oper cn context now)
                 \<lparr>recovery_action := Some ''no_recovery_available''\<rparr>]\<rparr>)"
  using assms
  by (auto simp: handle_error_def Let_def strategy_returns_def fallback_returns_def
           split: option.splits sum.splits)

lemma handle_error_fallback_returns:
  assumes "\<not> strategy_returns m err oper cn context now"
    and "fallback_returns m err oper cn context now"
  shows "\<exists>v. fst (handle_error m err oper cn context now) = Inr v
     \<and> map recovery_action (error_history (snd (handle_error m err oper cn context now)))
        = map recovery_action (error_history m) @ [Some ''fallback_succeeded'']"
  using assms
  by (auto simp: handle_error_def Let_def strategy_returns_def fallback_returns_def
           split: option.splits sum.splits)

lemma handle_error_strategy_returns':
  assumes "strategy_returns m err oper cn context now"
  shows "\<exists>v. fst (handle_error m err oper cn context now) = Inr v
     \<and> map recovery_action (error_history (snd (handle_error m err oper cn context now)))
        = map recovery_action (error_history m) @ [Some ''recovery_strategy_succeeded'']"
  using assms
  by (auto simp: handle_error_def Let_def strategy_returns_def 
           split: option.splits sum.splits)

lemma final_action_cases:
  "recovery_action (last (error_history (snd (handle_error m err oper cn context now)))) =
     (if strategy_returns m err oper cn context now then Some ''recovery_strategy_succeeded''
      else if fallback_returns m err oper cn context now then Some ''fallback_succeeded''
      else Some ''no_recovery_available'')"
  by (auto simp: handle_error_def Let_def strategy_returns_def fallback_returns_def
           split: option.splits sum.splits)

lemma history_grows:
  "\<exists>c. error_history (snd (handle_error m err oper cn context now)) = error_history m @ [c]"
  by (auto simp: handle_error_def Let_def split: option.splits sum.splits)

lemma multiple_values_None:
  "(multiple_values n kw = None) = (''error'' \<notin> fst ` set kw \<and> ''context'' \<notin> fst ` set kw)"
proof -
  have "(multiple_values n kw = None)
          = (find (\<lambda>k. k = ''error'' \<or> k = ''context'') (map fst kw) = None)"
    by (simp add: multiple_values_def split: option.splits)
  also have "\<dots> = (''error'' \<notin> fst ` set kw \<and> ''context'' \<notin> fst ` set kw)"
    by (force simp: find_None_iff)
  finally show ?thesis .
qed

lemma returns_None:
  "((case mv of None \<Rightarrow> Inr PNone | Some e \<Rightarrow> Inl e) = (Inr PNone :: exn + pyval)) = (mv = None)"
  by (cases mv) auto

lemma default_strategies:
  "recovery_strategies (error_recovery g) k = Some s \<Longrightarrow>
   (s err c context = Inr PNone) = (''error'' \<notin> fst ` set context \<and> ''context'' \<notin> fst ` set context)"
  by (auto simp: error_recovery_def setup_default_recovery_strategies_def
        register_fallback_handler_def register_recovery_strategy_def ErrorRecoveryManager_init_def
        gitlab_connection_recovery_def ollama_connection_recovery_def rate_limit_recovery_def
        returns_None multiple_values_None
        split: if_splits)

lemma default_strategies_raise:
  "recovery_strategies (error_recovery g) k = Some s \<Longrightarrow> s err c context \<noteq> Inr PNone \<Longrightarrow>
   \<exists>t. s err c context = Inl t \<and> exc_name t = ''TypeError''"
  by (auto simp: error_recovery_def setup_default_recovery_strategies_def
        register_fallback_handler_def register_recovery_strategy_def ErrorRecoveryManager_init_def
        gitlab_connection_recovery_def ollama_connection_recovery_def rate_limit_recovery_def
        multiple_values_def builtin_error_def
        split: if_splits option.splits)

lemma default_fallback:
  assumes "''error'' \<in> fst ` set context \<or> ''context'' \<in> fst ` set context"
  shows "\<not> fallback_returns (error_recovery g) err oper cn context now"
proof (cases "fallback_handlers (error_recovery g) oper")
  case None
  then show ?thesis by (simp add: fallback_returns_def)
next
  case (Some h)
  then have h: "h = review_generation_fallback g"
    by (simp add: error_recovery_def setup_default_recovery_strategies_def
          register_fallback_handler_def register_recovery_strategy_def
          ErrorRecoveryManager_init_def split: if_splits)
  from assms obtain t where "multiple_values (local_name ''review_generation_fallback'') context = Some t"
    using multiple_values_None [of "local_name ''review_generation_fallback''" "context"] by auto
  then have "\<And>c. isl (h err c context)"
    by (simp add: h review_generation_fallback_def)
  then show ?thesis by (simp add: fallback_returns_def Some split: option.splits)
qed

lemma handle_error_strategy_raises_no_fallback:
  assumes "recovery_strategies m (exc_name err) = Some strategy"
    and "strategy err (new_error_context err oper cn context now) context = Inl e"
    and "fallback_handlers m oper = None"
  shows "handle_error m err oper cn context now =
           (Inl err, m\<lparr>error_history := error_history m @
              [(new_error_context err oper cn context now)
                 \<lparr>recovery_action := Some ''no_recovery_available''\<rparr>]\<rparr>)"
  using assms by (simp add: handle_error_def Let_def)

lemma handle_error_strategy_raises_fallback_returns:
  assumes "recovery_strategies m (exc_name err) = Some strategy"
    and "strategy err (new_error_context err oper cn context now) context = Inl e"
    and "fallback_handlers m oper = Some h"
    and "h err ((new_error_context err oper cn context now)
                  \<lparr>recovery_action := Some ''recovery_strategy_failed''\<rparr>) context = Inr w"
  shows "handle_error m err oper cn context now =
           (Inr w, m\<lparr>error_history := error_history m @
              [(new_error_context err oper cn context now)
                 \<lparr>recovery_action := Some ''fallback_succeeded''\<rparr>]\<rparr>)"
  using assms by (simp add: handle_error_def Let_def)

lemma handle_error_strategy_raises_fallback_raises:
  assumes "recovery_strategies m (exc_name err) = Some strategy"
    and "strategy err (new_error_context err oper cn context now) context = Inl e"
    and "fallback_handlers m oper = Some h"
    and "h err ((new_error_context err oper cn context now)
                  \<lparr>recovery_action := Some ''recovery_strategy_failed''\<rparr>) context = Inl e2"
  shows "handle_error m err oper cn context now =
           (Inl err, m\<lparr>error_history := error_history m @
              [(new_error_context err oper cn context now)
                 \<lparr>recovery_action := Some ''no_recovery_available''\<rparr>]\<rparr>)"
  using assms by (simp add: handle_error_def Let_def)

lemma default_strategy_registered:
  "k \<in> {''ConnectionError'', ''HTTPError'', ''Timeout''} \<Longrightarrow>
   \<exists>s. recovery_strategies (error_recovery g) k = Some s"
  by (auto simp: error_recovery_def setup_default_recovery_strategies_def
        register_fallback_handler_def register_recovery_strategy_def)

text \<open>
  C4: whenever a recovery strategy registered for the error's class name runs without
  raising, \<^verbatim>\<open>handle_error\<close> returns the strategy's value and raises nothing; and whenever
  both the registered strategy and the registered fallback raise, the original error is
  re-raised and the event appended to the history carries the outcome
  \<^verbatim>\<open>no_recovery_available\<close>.
\<close>

theorem handle_error_strategy_value_or_reraise:
  assumes "c0 = new_error_context err oper cn context now"
    and "recovery_strategies m (exc_name err) = Some strategy"
  shows "(strategy err c0 context = Inr v \<longrightarrow>
            fst (handle_error m err oper cn context now) = Inr v)
       \<and> (strategy err c0 context = Inl e1 \<and> fallback_handlers m oper = Some h
            \<and> h err (c0\<lparr>recovery_action := Some ''recovery_strategy_failed''\<rparr>) context = Inl e2 \<longrightarrow>
            fst (handle_error m err oper cn context now) = Inl err
            \<and> error_history (snd (handle_error m err oper cn context now))
                = error_history m @ [c0\<lparr>recovery_action := Some ''no_recovery_available''\<rparr>])"
proof (intro conjI impI)
  assume "strategy err c0 context = Inr v"
  then show "fst (handle_error m err oper cn context now) = Inr v"
    using assms by (simp add: handle_error_strategy_returns)
next
  assume h: "strategy err c0 context = Inl e1 \<and> fallback_handlers m oper = Some h
            \<and> h err (c0\<lparr>recovery_action := Some ''recovery_strategy_failed''\<rparr>) context = Inl e2"
  have "\<not> strategy_returns m err oper cn context now"
    using h assms by (simp add: strategy_returns_def)
  moreover have "\<not> fallback_returns m err oper cn context now"
    using h assms by (simp add: fallback_returns_def)
  ultimately have r: "handle_error m err oper cn context now =
           (Inl err, m\<lparr>error_history := error_history m @
              [c0\<lparr>recovery_action := Some ''no_recovery_available''\<rparr>]\<rparr>)"
    unfolding assms(1) by (rule handle_error_raises)
  show "fst (handle_error m err oper cn context now) = Inl err" by (simp add: r)
  show "error_history (snd (handle_error m err oper cn context now))
                = error_history m @ [c0\<lparr>recovery_action := Some ''no_recovery_available''\<rparr>]"
    by (simp add: r)
qed

theorem handle_error_strategy_value_or_reraise_witness:
  "fst (handle_error
          (register_recovery_strategy ''ValueError'' fixed_strategy ErrorRecoveryManager_init)
          (ValueError ''Test error'') ''test_operation'' ''test_component'' []
          ''2023-01-01T00:00:00'') = Inr (PStr ''recovered_value'')
   \<and> fst (handle_error
          (register_fallback_handler ''test_operation'' broken_fallback
            (register_recovery_strategy ''ValueError'' broken_strategy ErrorRecoveryManager_init))
          (ValueError ''Test error'') ''test_operation'' ''test_component'' []
          ''2023-01-01T00:00:00'') = Inl (ValueError ''Test error'')
   \<and> map recovery_action (error_history (snd (handle_error
          (register_fallback_handler ''test_operation'' broken_fallback
            (register_recovery_strategy ''ValueError'' broken_strategy ErrorRecoveryManager_init))
          (ValueError ''Test error'') ''test_operation'' ''test_component'' []
          ''2023-01-01T00:00:00''))) = [Some ''no_recovery_available'']"
  using handle_error_strategy_value_or_reraise
          [of "new_error_context (ValueError ''Test error'') ''test_operation'' ''test_component'' []
                 ''2023-01-01T00:00:00''"
              "ValueError ''Test error''" "''test_operation''" "''test_component''" "[]"
              "''2023-01-01T00:00:00''"
              "register_recovery_strategy ''ValueError'' fixed_strategy ErrorRecoveryManager_init"
              fixed_strategy "PStr ''recovered_value''"]
        handle_error_strategy_value_or_reraise
          [of "new_error_context (ValueError ''Test error'') ''test_operation'' ''test_component'' []
                 ''2023-01-01T00:00:00''"
              "ValueError ''Test error''" "''test_operation''" "''test_component''" "[]"
              "''2023-01-01T00:00:00''"
              "register_fallback_handler ''test_operation'' broken_fallback
                (register_recovery_strategy ''ValueError'' broken_strategy ErrorRecoveryManager_init)"
              broken_strategy "PNone" "Exception ''strategy broke''" broken_fallback
              "Exception ''fallback broke''"]
  by (simp add: register_recovery_strategy_def register_fallback_handler_def
        ErrorRecoveryManager_init_def builtin_error_def fixed_strategy_def broken_strategy_def
        broken_fallback_def multiple_values_def)

text \<open>
  C8, as stated: when a fallback handler is registered for the operation and that handler
  raises, the event's recorded recovery outcome is \<^verbatim>\<open>fallback_failed\<close>. On a manager
  with a raising fallback for \<^verbatim>\<open>test_operation\<close> and nothing else, the event recorded for
  an error of that operation carries \<^verbatim>\<open>no_recovery_available\<close>.
\<close>

theorem fallback_failed_overwritten_counterexample:
  "fallback_handlers
     (register_fallback_handler ''test_operation'' broken_fallback ErrorRecoveryManager_init)
     ''test_operation'' = Some broken_fallback
   \<and> broken_fallback (ValueError ''Test error'')
        (new_error_context (ValueError ''Test error'') ''test_operation'' ''test_component'' []
           ''2023-01-01T00:00:00'') []
      = Inl (Exception ''fallback broke'')
   \<and> map recovery_action (error_history (snd (handle_error
          (register_fallback_handler ''test_operation'' broken_fallback ErrorRecoveryManager_init)
          (ValueError ''Test error'') ''test_operation'' ''test_component'' []
          ''2023-01-01T00:00:00''))) = [Some ''no_recovery_available'']
   \<and> ''no_recovery_available'' \<noteq> ''fallback_failed''"
  by (simp add: handle_error_def Let_def register_fallback_handler_def
        ErrorRecoveryManager_init_def builtin_error_def broken_fallback_def multiple_values_def)

text \<open>
  C8, amended: when a fallback handler is registered for the operation and is reached (no
  registered strategy has returned) and raises, the outcome \<^verbatim>\<open>fallback_failed\<close> is
  overwritten at once: the original error is re-raised and the event's recorded outcome is
  \<^verbatim>\<open>no_recovery_available\<close>. That outcome is recorded exactly when no registered strategy
  returns and no registered fallback returns, be it that none is registered or that the
  registered one raises.
\<close>

theorem fallback_failure_recorded_as_none_available:
  "(fallback_handlers m oper = Some h
      \<and> \<not> strategy_returns m err oper cn context now
      \<and> \<not> fallback_returns m err oper cn context now \<longrightarrow>
      fst (handle_error m err oper cn context now) = Inl err
      \<and> recovery_action (last (error_history (snd (handle_error m err oper cn context now))))
          = Some ''no_recovery_available'')
   \<and> ((recovery_action (last (error_history (snd (handle_error m err oper cn context now))))
          = Some ''no_recovery_available'')
        = (\<not> strategy_returns m err oper cn context now
           \<and> \<not> fallback_returns m err oper cn context now))"
proof -
  have a: "\<not> strategy_returns m err oper cn context now
           \<and> \<not> fallback_returns m err oper cn context now \<longrightarrow>
           fst (handle_error m err oper cn context now) = Inl err"
    by (simp add: handle_error_raises)
  have b: "(recovery_action (last (error_history (snd (handle_error m err oper cn context now))))
          = Some ''no_recovery_available'')
        = (\<not> strategy_returns m err oper cn context now
           \<and> \<not> fallback_returns m err oper cn context now)"
    by (simp add: final_action_cases)
  from a b show ?thesis by blast
qed

theorem fallback_failure_recorded_as_none_available_witness:
  "fallback_handlers
     (register_fallback_handler ''test_operation'' broken_fallback ErrorRecoveryManager_init)
     ''test_operation'' = Some broken_fallback
   \<and> \<not> strategy_returns
        (register_fallback_handler ''test_operation'' broken_fallback ErrorRecoveryManager_init)
        (ValueError ''Test error'') ''test_operation'' ''test_component'' [] ''2023-01-01T00:00:00''
   \<and> \<not> fallback_returns
        (register_fallback_handler ''test_operation'' broken_fallback ErrorRecoveryManager_init)
        (ValueError ''Test error'') ''test_operation'' ''test_component'' [] ''2023-01-01T00:00:00''
   \<and> fst (handle_error
        (register_fallback_handler ''test_operation'' broken_fallback ErrorRecoveryManager_init)
        (ValueError ''Test error'') ''test_operation'' ''test_component'' [] ''2023-01-01T00:00:00'')
      = Inl (ValueError ''Test error'')
   \<and> recovery_action (last (error_history (snd (handle_error
        (register_fallback_handler ''test_operation'' broken_fallback ErrorRecoveryManager_init)
        (ValueError ''Test error'') ''test_operation'' ''test_component'' []
        ''2023-01-01T00:00:00'')))) = Some ''no_recovery_available''"
  using fallback_failure_recorded_as_none_available
          [of "register_fallback_handler ''test_operation'' broken_fallback ErrorRecoveryManager_init"
              "''test_operation''" broken_fallback "ValueError ''Test error''" "''test_component''"
              "[]" "''2023-01-01T00:00:00''"]
  by (simp add: strategy_returns_def fallback_returns_def register_fallback_handler_def
        ErrorRecoveryManager_init_def builtin_error_def broken_fallback_def multiple_values_def)

text \<open>
  C10: \<^verbatim>\<open>handle_error\<close> takes a registered recovery strategy as successful exactly when it
  does not raise; the value it returns is not inspected. A strategy that returns a value,
  \<^verbatim>\<open>None\<close> included, makes \<^verbatim>\<open>handle_error\<close> return that value as the recovered result with
  the outcome \<^verbatim>\<open>recovery_strategy_succeeded\<close>, and neither the fallback is tried nor the
  error re-raised. A strategy that raises never does: \<^verbatim>\<open>handle_error\<close> then re-raises the
  original error with the outcome \<^verbatim>\<open>no_recovery_available\<close> when no fallback is registered
  for the operation or the registered one raises, and returns the fallback's value with
  the outcome \<^verbatim>\<open>fallback_succeeded\<close> when the registered one returns. Every strategy
  registered by default returns \<^verbatim>\<open>None\<close>, unless the call itself fails because a keyword
  argument is named \<^verbatim>\<open>error\<close> or \<^verbatim>\<open>context\<close>. So on the default manager an error named
  \<^verbatim>\<open>ConnectionError\<close>, \<^verbatim>\<open>HTTPError\<close> or \<^verbatim>\<open>Timeout\<close> makes \<^verbatim>\<open>handle_error\<close> return \<^verbatim>\<open>None\<close>
  with the outcome \<^verbatim>\<open>recovery_strategy_succeeded\<close> when no keyword argument has such a
  name, and re-raise the error with the outcome \<^verbatim>\<open>no_recovery_available\<close> when one is
  named \<^verbatim>\<open>context\<close>.
\<close>

theorem strategy_success_is_not_raising:
  assumes "c0 = new_error_context err oper cn context now"
    and "stored = (\<lambda>a. m\<lparr>error_history := error_history m @ [c0\<lparr>recovery_action := Some a\<rparr>]\<rparr>)"
    and "stored' = (\<lambda>a. (error_recovery g)\<lparr>error_history :=
                          error_history (error_recovery g) @ [c0\<lparr>recovery_action := Some a\<rparr>]\<rparr>)"
  shows "(recovery_strategies m (exc_name err) = Some strategy \<and> strategy err c0 context = Inr v \<longrightarrow>
            handle_error m err oper cn context now = (Inr v, stored ''recovery_strategy_succeeded''))
       \<and> (recovery_strategies m (exc_name err) = Some strategy \<and> strategy err c0 context = Inr PNone \<longrightarrow>
            fst (handle_error m err oper cn context now) = Inr PNone)
       \<and> (recovery_strategies m (exc_name err) = Some strategy \<and> strategy err c0 context = Inl e
            \<and> fallback_handlers m oper = None \<longrightarrow>
            handle_error m err oper cn context now = (Inl err, stored ''no_recovery_available''))
       \<and> (recovery_strategies m (exc_name err) = Some strategy \<and> strategy err c0 context = Inl e
            \<and> fallback_handlers m oper = Some h
            \<and> h err (c0\<lparr>recovery_action := Some ''recovery_strategy_failed''\<rparr>) context = Inr w \<longrightarrow>
            handle_error m err oper cn context now = (Inr w, stored ''fallback_succeeded''))
       \<and> (recovery_strategies m (exc_name err) = Some strategy \<and> strategy err c0 context = Inl e
            \<and> fallback_handlers m oper = Some h
            \<and> h err (c0\<lparr>recovery_action := Some ''recovery_strategy_failed''\<rparr>) context = Inl e2 \<longrightarrow>
            handle_error m err oper cn context now = (Inl err, stored ''no_recovery_available''))
       \<and> (recovery_strategies (error_recovery g) k = Some s \<longrightarrow>
            (s err c context = Inr PNone)
              = (''error'' \<notin> fst ` set context \<and> ''context'' \<notin> fst ` set context)
            \<and> (s err c context \<noteq> Inr PNone \<longrightarrow>
                 (\<exists>t. s err c context = Inl t \<and> exc_name t = ''TypeError'')))
       \<and> (exc_name err \<in> {''ConnectionError'', ''HTTPError'', ''Timeout''}
            \<and> ''error'' \<notin> fst ` set context \<and> ''context'' \<notin> fst ` set context \<longrightarrow>
            handle_error (error_recovery g) err oper cn context now
              = (Inr PNone, stored' ''recovery_strategy_succeeded''))
       \<and> (exc_name err \<in> {''ConnectionError'', ''HTTPError'', ''Timeout''}
            \<and> ''error'' \<notin> fst ` set context \<and> ''context'' \<in> fst ` set context \<longrightarrow>
            handle_error (error_recovery g) err oper cn context now
              = (Inl err, stored' ''no_recovery_available''))"
proof -
  have a: "recovery_strategies m (exc_name err) = Some strategy \<and> strategy err c0 context = Inr v \<longrightarrow>
            handle_error m err oper cn context now = (Inr v, stored ''recovery_strategy_succeeded'')"
    unfolding assms by (simp add: handle_error_strategy_returns)
  have b: "recovery_strategies m (exc_name err) = Some strategy \<and> strategy err c0 context = Inr PNone \<longrightarrow>
            fst (handle_error m err oper cn context now) = Inr PNone"
    unfolding assms by (simp add: handle_error_strategy_returns)
  have c: "recovery_strategies m (exc_name err) = Some strategy \<and> strategy err c0 context = Inl e
            \<and> fallback_handlers m oper = None \<longrightarrow>
            handle_error m err oper cn context now = (Inl err, stored ''no_recovery_available'')"
    unfolding assms by (simp add: handle_error_strategy_raises_no_fallback)
  have d: "recovery_strategies m (exc_name err) = Some strategy \<and> strategy err c0 context = Inl e
            \<and> fallback_handlers m oper = Some h
            \<and> h err (c0\<lparr>recovery_action := Some ''recovery_strategy_failed''\<rparr>) context = Inr w \<longrightarrow>
            handle_error m err oper cn context now = (Inr w, stored ''fallback_succeeded'')"
    unfolding assms by (simp add: handle_error_strategy_raises_fallback_returns)
  have f: "recovery_strategies m (exc_name err) = Some strategy \<and> strategy err c0 context = Inl e
            \<and> fallback_handlers m oper = Some h
            \<and> h err (c0\<lparr>recovery_action := Some ''recovery_strategy_failed''\<rparr>) context = Inl e2 \<longrightarrow>
            handle_error m err oper cn context now = (Inl err, stored ''no_recovery_available'')"
    unfolding assms by (simp add: handle_error_strategy_raises_fallback_raises)
  have g: "recovery_strategies (error_recovery g) k = Some s \<longrightarrow>
            (s err c context = Inr PNone)
              = (''error'' \<notin> fst ` set context \<and> ''context'' \<notin> fst ` set context)
            \<and> (s err c context \<noteq> Inr PNone \<longrightarrow>
                 (\<exists>t. s err c context = Inl t \<and> exc_name t = ''TypeError''))"
    using default_strategies [of g k s err c "context"] default_strategies_raise [of g k s err c "context"]
    by blast
  have h: "exc_name err \<in> {''ConnectionError'', ''HTTPError'', ''Timeout''}
            \<and> ''error'' \<notin> fst ` set context \<and> ''context'' \<notin> fst ` set context \<longrightarrow>
            handle_error (error_recovery g) err oper cn context now
              = (Inr PNone, stored' ''recovery_strategy_succeeded'')"
  proof
    assume p: "exc_name err \<in> {''ConnectionError'', ''HTTPError'', ''Timeout''}
            \<and> ''error'' \<notin> fst ` set context \<and> ''context'' \<notin> fst ` set context"
    then obtain s' where s': "recovery_strategies (error_recovery g) (exc_name err) = Some s'"
      using default_strategy_registered by blast
    have "s' err (new_error_context err oper cn context now) context = Inr PNone"
      using default_strategies [OF s'] p by blast
    with s' show "handle_error (error_recovery g) err oper cn context now
              = (Inr PNone, stored' ''recovery_strategy_succeeded'')"
      unfolding assms by (simp add: handle_error_strategy_returns)
  qed
  have i: "exc_name err \<in> {''ConnectionError'', ''HTTPError'', ''Timeout''}
            \<and> ''error'' \<notin> fst ` set context \<and> ''context'' \<in> fst ` set context \<longrightarrow>
            handle_error (error_recovery g) err oper cn context now
              = (Inl err, stored' ''no_recovery_available'')"
  proof
    assume p: "exc_name err \<in> {''ConnectionError'', ''HTTPError'', ''Timeout''}
            \<and> ''error'' \<notin> fst ` set context \<and> ''context'' \<in> fst ` set context"
    then obtain s' where s': "recovery_strategies (error_recovery g) (exc_name err) = Some s'"
      using default_strategy_registered by blast
    have "s' err (new_error_context err oper cn context now) context \<noteq> Inr PNone"
      using default_strategies [OF s'] p by blast
    then obtain t where "s' err (new_error_context err oper cn context now) context = Inl t"
      using default_strategies_raise [OF s'] by blast
    then have "\<not> strategy_returns (error_recovery g) err oper cn context now"
      using s' by (simp add: strategy_returns_def)
    moreover have "\<not> fallback_returns (error_recovery g) err oper cn context now"
      using p by (simp add: default_fallback)
    ultimately show "handle_error (error_recovery g) err oper cn context now
              = (Inl err, stored' ''no_recovery_available'')"
      unfolding assms by (simp add: handle_error_raises)
  qed
  from a b c d f g h i show ?thesis by blast
qed

theorem strategy_success_is_not_raising_witness:
  "handle_error (error_recovery ''2023-01-01T00:00:00'') (requests_ConnectionError ''refused'')
        ''review_generation'' ''ollama'' [] ''2023-01-01T00:00:01''
      = (Inr PNone,
         (error_recovery ''2023-01-01T00:00:00'')\<lparr>error_history :=
            [(new_error_context (requests_ConnectionError ''refused'') ''review_generation''
                ''ollama'' [] ''2023-01-01T00:00:01'')
               \<lparr>recovery_action := Some ''recovery_strategy_succeeded''\<rparr>]\<rparr>)
   \<and> gitlab_connection_recovery (requests_ConnectionError ''refused'')
        (new_error_context (requests_ConnectionError ''refused'') ''review_generation''
           ''ollama'' [] ''2023-01-01T00:00:01'') [] = Inr PNone
   \<and> handle_error (error_recovery ''2023-01-01T00:00:00'') (requests_ConnectionError ''refused'')
        ''review_generation'' ''ollama'' [(''context'', PInt 1)] ''2023-01-01T00:00:01''
      = (Inl (requests_ConnectionError ''refused''),
         (error_recovery ''2023-01-01T00:00:00'')\<lparr>error_history :=
            [(new_error_context (requests_ConnectionError ''refused'') ''review_generation''
                ''ollama'' [(''context'', PInt 1)] ''2023-01-01T00:00:01'')
               \<lparr>recovery_action := Some ''no_recovery_available''\<rparr>]\<rparr>)
   \<and> (\<exists>t. gitlab_connection_recovery (requests_ConnectionError ''refused'')
        (new_error_context (requests_ConnectionError ''refused'') ''review_generation''
           ''ollama'' [(''context'', PInt 1)] ''2023-01-01T00:00:01'') [(''context'', PInt 1)] = Inl t
         \<and> exc_name t = ''TypeError'')
   \<and> fst (handle_error
          (register_recovery_strategy ''ValueError'' broken_strategy ErrorRecoveryManager_init)
          (ValueError ''Test error'') ''test_operation'' ''test_component'' []
          ''2023-01-01T00:00:00'') = Inl (ValueError ''Test error'')
   \<and> map recovery_action (error_history (snd (handle_error
          (register_recovery_strategy ''ValueError'' broken_strategy ErrorRecoveryManager_init)
          (ValueError ''Test error'') ''test_operation'' ''test_component'' []
          ''2023-01-01T00:00:00''))) = [Some ''no_recovery_available'']
   \<and> fst (handle_error
          (register_fallback_handler ''test_operation'' fixed_fallback
            (register_recovery_strategy ''ValueError'' broken_strategy ErrorRecoveryManager_init))
          (ValueError ''Test error'') ''test_operation'' ''test_component'' []
          ''2023-01-01T00:00:00'') = Inr (PStr ''fallback_value'')
   \<and> map recovery_action (error_history (snd (handle_error
          (register_fallback_handler ''test_operation'' fixed_fallback
            (register_recovery_strategy ''ValueError'' broken_strategy ErrorRecoveryManager_init))
          (ValueError ''Test error'') ''test_operation'' ''test_component'' []
          ''2023-01-01T00:00:00''))) = [Some ''fallback_succeeded'']
   \<and> fst (handle_error
          (register_fallback_handler ''test_operation'' broken_fallback
            (register_recovery_strategy ''ValueError'' broken_strategy ErrorRecoveryManager_init))
          (ValueError ''Test error'') ''test_operation'' ''test_component'' []
          ''2023-01-01T00:00:00'') = Inl (ValueError ''Test error'')
   \<and> map recovery_action (error_history (snd (handle_error
          (register_fallback_handler ''test_operation'' broken_fallback
            (register_recovery_strategy ''ValueError'' broken_strategy ErrorRecoveryManager_init))
          (ValueError ''Test error'') ''test_operation'' ''test_component'' []
          ''2023-01-01T00:00:00''))) = [Some ''no_recovery_available'']"
  using strategy_success_is_not_raising
          [of "new_error_context (requests_ConnectionError ''refused'') ''review_generation''
                 ''ollama'' [] ''2023-01-01T00:00:01''"
              "requests_ConnectionError ''refused''"
              "''review_generation''"
              "''ollama''"
              "[]"
              "''2023-01-01T00:00:01''"
              "\<lambda>a. (error_recovery ''2023-01-01T00:00:00'')\<lparr>error_history :=
                   error_history (error_recovery ''2023-01-01T00:00:00'') @
                   [(new_error_context (requests_ConnectionError ''refused'') ''review_generation''
                 ''ollama'' [] ''2023-01-01T00:00:01'')\<lparr>recovery_action := Some a\<rparr>]\<rparr>"
              "error_recovery ''2023-01-01T00:00:00''"
              "\<lambda>a. (error_recovery ''2023-01-01T00:00:00'')\<lparr>error_history :=
                   error_history (error_recovery ''2023-01-01T00:00:00'') @
                   [(new_error_context (requests_ConnectionError ''refused'') ''review_generation''
                 ''ollama'' [] ''2023-01-01T00:00:01'')\<lparr>recovery_action := Some a\<rparr>]\<rparr>"
              "''2023-01-01T00:00:00''"
              "gitlab_connection_recovery"
              "PNone"
              _
              _
              _
              _
              "''ConnectionError''"
              "gitlab_connection_recovery"
              "new_error_context (requests_ConnectionError ''refused'') ''review_generation''
                 ''ollama'' [] ''2023-01-01T00:00:01''"]
        strategy_success_is_not_raising
          [of "new_error_context (requests_ConnectionError ''refused'') ''review_generation''
                 ''ollama'' [(''context'', PInt 1)] ''2023-01-01T00:00:01''"
              "requests_ConnectionError ''refused''"
              "''review_generation''"
              "''ollama''"
              "[(''context'', PInt 1)]"
              "''2023-01-01T00:00:01''"
              "\<lambda>a. (error_recovery ''2023-01-01T00:00:00'')\<lparr>error_history :=
                   error_history (error_recovery ''2023-01-01T00:00:00'') @
                   [(new_error_context (requests_ConnectionError ''refused'') ''review_generation''
                 ''ollama'' [(''context'', PInt 1)] ''2023-01-01T00:00:01'')\<lparr>recovery_action := Some a\<rparr>]\<rparr>"
              "error_recovery ''2023-01-01T00:00:00''"
              "\<lambda>a. (error_recovery ''2023-01-01T00:00:00'')\<lparr>error_history :=
                   error_history (error_recovery ''2023-01-01T00:00:00'') @
                   [(new_error_context (requests_ConnectionError ''refused'') ''review_generation''
                 ''ollama'' [(''context'', PInt 1)] ''2023-01-01T00:00:01'')\<lparr>recovery_action := Some a\<rparr>]\<rparr>"
              "''2023-01-01T00:00:00''"
              _
              _
              _
              _
              _
              _
              "''ConnectionError''"
              "gitlab_connection_recovery"
              "new_error_context (requests_ConnectionError ''refused'') ''review_generation''
                 ''ollama'' [(''context'', PInt 1)] ''2023-01-01T00:00:01''"]
        strategy_success_is_not_raising
          [of "new_error_context (ValueError ''Test error'') ''test_operation''
                 ''test_component'' [] ''2023-01-01T00:00:00''"
              "ValueError ''Test error''"
              "''test_operation''"
              "''test_component''"
              "[]"
              "''2023-01-01T00:00:00''"
              "\<lambda>a. (register_recovery_strategy ''ValueError'' broken_strategy ErrorRecoveryManager_init)\<lparr>error_history :=
                   error_history (register_recovery_strategy ''ValueError'' broken_strategy ErrorRecoveryManager_init) @
                   [(new_error_context (ValueError ''Test error'') ''test_operation''
                 ''test_component'' [] ''2023-01-01T00:00:00'')\<lparr>recovery_action := Some a\<rparr>]\<rparr>"
              "register_recovery_strategy ''ValueError'' broken_strategy ErrorRecoveryManager_init"
              "\<lambda>a. (error_recovery ''2023-01-01T00:00:00'')\<lparr>error_history :=
                   error_history (error_recovery ''2023-01-01T00:00:00'') @
                   [(new_error_context (ValueError ''Test error'') ''test_operation''
                 ''test_component'' [] ''2023-01-01T00:00:00'')\<lparr>recovery_action := Some a\<rparr>]\<rparr>"
              "''2023-01-01T00:00:00''"
              "broken_strategy"
              _
              "Exception ''strategy broke''"]
        strategy_success_is_not_raising
          [of "new_error_context (ValueError ''Test error'') ''test_operation''
                 ''test_component'' [] ''2023-01-01T00:00:00''"
              "ValueError ''Test error''"
              "''test_operation''"
              "''test_component''"
              "[]"
              "''2023-01-01T00:00:00''"
              "\<lambda>a. (register_fallback_handler ''test_operation'' fixed_fallback
                (register_recovery_strategy ''ValueError'' broken_strategy ErrorRecoveryManager_init))\<lparr>error_history :=
                   error_history (register_fallback_handler ''test_operation'' fixed_fallback
                (register_recovery_strategy ''ValueError'' broken_strategy ErrorRecoveryManager_init)) @
                   [(new_error_context (ValueError ''Test error'') ''test_operation''
                 ''test_component'' [] ''2023-01-01T00:00:00'')\<lparr>recovery_action := Some a\<rparr>]\<rparr>"
              "register_fallback_handler ''test_operation'' fixed_fallback
                (register_recovery_strategy ''ValueError'' broken_strategy ErrorRecoveryManager_init)"
              "\<lambda>a. (error_recovery ''2023-01-01T00:00:00'')\<lparr>error_history :=
                   error_history (error_recovery ''2023-01-01T00:00:00'') @
                   [(new_error_context (ValueError ''Test error'') ''test_operation''
                 ''test_component'' [] ''2023-01-01T00:00:00'')\<lparr>recovery_action := Some a\<rparr>]\<rparr>"
              "''2023-01-01T00:00:00''"
              "broken_strategy"
              _
              "Exception ''strategy broke''"
              "fixed_fallback"
              "PStr ''fallback_value''"]
        strategy_success_is_not_raising
          [of "new_error_context (ValueError ''Test error'') ''test_operation''
                 ''test_component'' [] ''2023-01-01T00:00:00''"
              "ValueError ''Test error''"
              "''test_operation''"
              "''test_component''"
              "[]"
              "''2023-01-01T00:00:00''"
              "\<lambda>a. (register_fallback_handler ''test_operation'' broken_fallback
                (register_recovery_strategy ''ValueError'' broken_strategy ErrorRecoveryManager_init))\<lparr>error_history :=
                   error_history (register_fallback_handler ''test_operation'' broken_fallback
                (register_recovery_strategy ''ValueError'' broken_strategy ErrorRecoveryManager_init)) @
                   [(new_error_context (ValueError ''Test error'') ''test_operation''
                 ''test_component'' [] ''2023-01-01T00:00:00'')\<lparr>recovery_action := Some a\<rparr>]\<rparr>"
              "register_fallback_handler ''test_operation'' broken_fallback
                (register_recovery_strategy ''ValueError'' broken_strategy ErrorRecoveryManager_init)"
              "\<lambda>a. (error_recovery ''2023-01-01T00:00:00'')\<lparr>error_history :=
                   error_history (error_recovery ''2023-01-01T00:00:00'') @
                   [(new_error_context (ValueError ''Test error'') ''test_operation''
                 ''test_component'' [] ''2023-01-01T00:00:00'')\<lparr>recovery_action := Some a\<rparr>]\<rparr>"
              "''2023-01-01T00:00:00''"
              "broken_strategy"
              _
              "Exception ''strategy broke''"
              "broken_fallback"
              _
              "Exception ''fallback broke''"]
  by (simp add: error_recovery_def setup_default_recovery_strategies_def
        register_fallback_handler_def register_recovery_strategy_def ErrorRecoveryManager_init_def
        gitlab_connection_recovery_def requests_ConnectionError_def builtin_error_def
        broken_strategy_def broken_fallback_def fixed_fallback_def multiple_values_def)

section \<open>Batch processing\<close>

lemma bind_exn_simps [simp]:
  "bind_exn (Inl e) f = Inl e"
  "bind_exn (Inr x) f = f x"
  by (simp_all add: bind_exn_def)

lemma update_progress_results [simp]:
  "update_progress (bp\<lparr>results := rs\<rparr>) current tot msg = update_progress bp current tot msg"
  by (simp add: update_progress_def)

lemma quiet_results [simp]: "quiet (bp\<lparr>results := rs\<rparr>) = quiet bp"
  by (simp add: quiet_def)

lemma post_if_requested_results [simp]:
  "post_if_requested (bp\<lparr>results := rs\<rparr>) ppath iid review post = post_if_requested bp ppath iid review post"
  by (auto simp: post_if_requested_def bind_exn_def split: sum.splits)

lemma single_mr_try_results [simp]:
  "single_mr_try (bp\<lparr>results := rs\<rparr>) m iid ppath rtype post = single_mr_try bp m iid ppath rtype post"
  by (simp add: single_mr_try_def)

lemma process_single_mr_results [simp]:
  "process_single_mr (bp\<lparr>results := rs\<rparr>) m rtype post = process_single_mr bp m rtype post"
  by (simp add: process_single_mr_def)

lemma get_mrs_try_results [simp]:
  "get_mrs_try (bp\<lparr>results := rs\<rparr>) ppath mr_state max_reviews filters
     = get_mrs_try bp ppath mr_state max_reviews filters"
  by (simp add: get_mrs_try_def)

lemma get_mrs_to_process_results [simp]:
  "get_mrs_to_process (bp\<lparr>results := rs\<rparr>) ppath mr_state max_reviews filters
     = get_mrs_to_process bp ppath mr_state max_reviews filters"
  by (simp add: get_mrs_to_process_def)


lemma worker_results [simp]: "worker (bp\<lparr>results := rs\<rparr>) = worker bp"
  by (intro ext) (simp add: worker_def)


lemma single_mr_try_iid:
  "single_mr_try bp m iid ppath rtype post = Inr r \<Longrightarrow> mr_iid r = iid"
  by (auto simp: single_mr_try_def bind_exn_def split: sum.splits)

lemma worker_iid [simp]: "mr_iid (worker bp rtype post m) = iid_of m"
  by (auto simp: worker_def failed_result_def split: sum.splits dest: single_mr_try_iid)





lemma as_completed_step:
  "xs \<noteq> [] \<Longrightarrow>
   as_completed (c # sched) xs =
     xs ! (c mod length xs)
       # as_completed sched (take (c mod length xs) xs @ drop (Suc (c mod length xs)) xs)"
  by (cases xs) (simp_all add: Let_def)



text \<open>Every order in which the futures can complete is given by some schedule.\<close>

lemma as_completed_any_order:
  "mset ys = mset xs \<Longrightarrow> \<exists>sched. as_completed sched xs = ys"
proof (induction ys arbitrary: xs)
  case Nil
  then have "xs = []" by simp
  then show ?case by simp
next
  case (Cons y ys)
  have "y \<in> set xs" using Cons.prems by (metis list.set_intros(1) set_mset_mset)
  then obtain i where i: "i < length xs" "xs ! i = y" by (auto simp: in_set_conv_nth)
  let ?rest = "take i xs @ drop (Suc i) xs"
  have "xs = take i xs @ y # drop (Suc i) xs" using i id_take_nth_drop [of i xs] by simp
  then have "mset xs = mset ?rest + {#y#}" by (metis add_mset_add_single mset.simps(2) mset_append union_mset_add_mset_right)
  then have "mset ys = mset ?rest" using Cons.prems by simp
  from Cons.IH [OF this] obtain sched where sched: "as_completed sched ?rest = ys" ..
  have ne: "xs \<noteq> []" using i by auto
  have "as_completed (i # sched) xs = y # ys"
    using i sched ne by (simp add: as_completed_step del: as_completed.simps)
  then show ?case ..
qed

lemma summarize_counts:
  "total_mrs (summarize rs ppath rtype errs) = int (length rs)"
  "successful_reviews (summarize rs ppath rtype errs) + failed_reviews (summarize rs ppath rtype errs)
     = total_mrs (summarize rs ppath rtype errs)"
  "errors (summarize rs ppath rtype errs) = errs"
  "successful_reviews (summarize rs ppath rtype errs) = int (length (filter success rs))"
  "failed_reviews (summarize rs ppath rtype errs) = int (length rs) - int (length (filter success rs))"
  by (simp_all add: summarize_def Let_def)







lemmas example_defs =
  processor_two_def processor_down_def processor_picky_def client_two_def client_one_def
  client_down_def analyzer_ok_def generator_ok_def mr_1_def mr_2_def picky_callback_def

lemmas run_defs =
  sleep_def process_project_mrs_def get_mrs_to_process_def get_mrs_try_def dispatch_def
  process_sequential_def process_parallel_def submit_all_def update_progress_def
  process_single_mr_def single_mr_try_def post_if_requested_def failed_result_def
  summarize_def create_empty_summary_def dict_item_def dict_get_def py_item_def py_get_def
  slice_to_def Let_def









text \<open>
  C3, as stated: if enumeration or filtering raises, a top-level error string is recorded
  in the errors of the summary. With a client whose listing raises a connection error,
  and with a working client and the filter \<^verbatim>\<open>{'author': None}\<close>, whose \<^verbatim>\<open>lower()\<close> raises,
  the summary returned has no error recorded.
\<close>

theorem enumeration_failure_not_recorded_counterexample:
  "get_mrs_try processor_down ''group/project'' ''opened'' 10 None
     = Inl (requests_ConnectionError ''Connection refused'')
   \<and> errors (fst (process_project_mrs processor_down ''group/project'' ''general'' ''opened''
                   10 False 1 1 None [])) = []
   \<and> get_mrs_try processor_two ''group/project'' ''opened'' 10 (Some [(''author'', PNone)])
     = Inl (no_attribute PNone ''lower'')
   \<and> errors (fst (process_project_mrs processor_two ''group/project'' ''general'' ''opened''
                   10 False 1 1 (Some [(''author'', PNone)]) [])) = []"
  by (simp add: run_defs example_defs apply_filters_def py_lower_def)

text \<open>
  C3, amended: if enumeration or filtering raises, \<^verbatim>\<open>_get_mrs_to_process\<close> catches the
  exception and yields no merge requests: the run does not raise, it returns the zeroed
  summary (total, successful and failed all 0) with an empty list of errors, and the
  results are empty. A top-level error string \<^verbatim>\<open>Batch processing failed: ...\<close> is recorded
  when an exception leaves the dispatch of the merge requests found; the summary is then
  computed from the results collected until then.
\<close>

theorem enumeration_failure_gives_empty_summary:
  "(get_mrs_try bp ppath mr_state max_reviews filters = Inl e \<longrightarrow>
      process_project_mrs bp ppath rtype mr_state max_reviews post workers delay filters sched
        = (create_empty_summary ppath rtype, bp\<lparr>results := []\<rparr>)
      \<and> total_mrs (create_empty_summary ppath rtype) = 0
      \<and> successful_reviews (create_empty_summary ppath rtype) = 0
      \<and> failed_reviews (create_empty_summary ppath rtype) = 0
      \<and> errors (create_empty_summary ppath rtype) = [])
   \<and> (get_mrs_try bp ppath mr_state max_reviews filters = Inr mrs \<and> mrs \<noteq> []
        \<and> dispatch (bp\<lparr>results := []\<rparr>) mrs rtype post workers delay sched = (Some e', bp1) \<longrightarrow>
      process_project_mrs bp ppath rtype mr_state max_reviews post workers delay filters sched
        = (summarize (results bp1) ppath rtype [''Batch processing failed: '' @ exc_str e'], bp1)
      \<and> total_mrs (summarize (results bp1) ppath rtype [''Batch processing failed: '' @ exc_str e'])
          = int (length (results bp1)))"
  by (simp add: process_project_mrs_def get_mrs_to_process_def Let_def create_empty_summary_def
        summarize_counts)

theorem enumeration_failure_gives_empty_summary_witness:
  "get_mrs_try processor_down ''group/project'' ''opened'' 10 None
     = Inl (requests_ConnectionError ''Connection refused'')
   \<and> process_project_mrs processor_down ''group/project'' ''general'' ''opened'' 10 False 1 1 None []
     = (create_empty_summary ''group/project'' ''general'', processor_down)
   \<and> get_mrs_try processor_picky ''group/project'' ''opened'' 10 None = Inr [mr_1]
   \<and> dispatch (processor_picky\<lparr>results := []\<rparr>) [mr_1] ''general'' False 1 1 []
     = (Some (Exception ''callback failed''), processor_picky)
   \<and> errors (fst (process_project_mrs processor_picky ''group/project'' ''general'' ''opened''
                   10 False 1 1 None [])) = [''Batch processing failed: callback failed'']
   \<and> get_mrs_try processor_late ''group/project'' ''opened'' 10 None = Inr [mr_1, mr_2]
   \<and> fst (dispatch (processor_late\<lparr>results := []\<rparr>) [mr_1, mr_2] ''general'' False 1 1 [])
     = Some (Exception ''callback failed'')
   \<and> map mr_iid (results (snd (process_project_mrs processor_late ''group/project'' ''general''
                   ''opened'' 10 False 1 1 None []))) = [PInt 1]
   \<and> total_mrs (fst (process_project_mrs processor_late ''group/project'' ''general'' ''opened''
                   10 False 1 1 None [])) = 1
   \<and> errors (fst (process_project_mrs processor_late ''group/project'' ''general'' ''opened''
                   10 False 1 1 None [])) = [''Batch processing failed: callback failed'']"
  using enumeration_failure_gives_empty_summary
          [of processor_down "''group/project''" "''opened''" 10 None
              "requests_ConnectionError ''Connection refused''" "''general''" False 1 1 "[]"]
        enumeration_failure_gives_empty_summary
          [of processor_picky "''group/project''" "''opened''" 10 None
              "Exception ''x''" "''general''" False 1 1 "[]" "[mr_1]"
              "Exception ''callback failed''" processor_picky]
        enumeration_failure_gives_empty_summary
          [of processor_late "''group/project''" "''opened''" 10 None
              "Exception ''x''" "''general''" False 1 1 "[]" "[mr_1, mr_2]"
              "Exception ''callback failed''"
              "snd (dispatch (processor_late\<lparr>results := []\<rparr>) [mr_1, mr_2] ''general'' False 1 1 [])"]
  by (simp add: run_defs example_defs Exception_def processor_late_def late_callback_def)

end
